theory Spec2Isabelle
  imports Main "HOL-Library.AList"
begin

section \<open>The entity provider of core-data\<close>

text \<open>
  A shallow embedding of \<^verbatim>\<open>packages/core-data/src/entity-provider.js\<close>: the
  module-level table \<^verbatim>\<open>entities\<close> with \<^verbatim>\<open>getEntity\<close>, the component
  \<^verbatim>\<open>EntityProvider\<close> and the hooks \<^verbatim>\<open>useEntityId\<close>, \<^verbatim>\<open>useEntityProp\<close> and
  \<^verbatim>\<open>useEntityBlockEditor\<close>.

  The JavaScript objects used as dictionaries (\<^verbatim>\<open>entities\<close>, \<^verbatim>\<open>entities[kind]\<close>,
  the records of the store) are association lists read with \<open>map_of\<close>: a key is present
  when the object has it as an own property. The code reads them with \<^verbatim>\<open>obj[name]\<close>,
  which also finds the members every object inherits from \<^verbatim>\<open>Object.prototype\<close>
  (such as \<^verbatim>\<open>constructor\<close>): on those names, listed as \<open>object_prototype_names\<close>
  below, the lookups of the model differ from those of the code, and what is proved
  about unknown kinds is stated for the other names.
\<close>

subsection \<open>JavaScript values\<close>

text \<open>
  The one function value this module creates is the closure of lines 187 to 189,
  \<^verbatim>\<open>( { blocks: blocksToSerialize } ) => serialize( blocksToSerialize )\<close>.
\<close>

datatype fn_body = Serialize_blocks

text \<open>
  Arrays, objects and functions carry the identity of the object (a natural number),
  so that two objects with the same contents are two values. Numbers are the integers
  (entity ids); NaN and negative zero are not represented.
\<close>

datatype jsval =
    JUndefined
  | JNull
  | JBool bool
  | JNum int
  | JStr string
  | JArr nat "jsval list"
  | JObj nat "(string \<times> jsval) list"
  | JFun nat fn_body

datatype error = Error string | TypeError string

text \<open>Truthiness, as \<^verbatim>\<open>if ( x )\<close> and \<^verbatim>\<open>x && y\<close> test it.\<close>

fun truthy :: "jsval \<Rightarrow> bool" where
  "truthy JUndefined = False"
| "truthy JNull = False"
| "truthy (JBool b) = b"
| "truthy (JNum n) = (n \<noteq> 0)"
| "truthy (JStr s) = (s \<noteq> [])"
| "truthy (JArr r xs) = True"
| "truthy (JObj r kvs) = True"
| "truthy (JFun r f) = True"

text \<open>\<^verbatim>\<open>typeof x === 'function'\<close>.\<close>

fun is_function :: "jsval \<Rightarrow> bool" where
  "is_function (JFun r f) = True"
| "is_function v = False"

text \<open>\<^verbatim>\<open>a ?? b\<close>: the right operand only when the left one is null or undefined.\<close>

fun nullish_coalesce :: "jsval \<Rightarrow> jsval \<Rightarrow> jsval" where
  "nullish_coalesce JUndefined b = b"
| "nullish_coalesce JNull b = b"
| "nullish_coalesce a b = a"

text \<open>
  \<^verbatim>\<open>Object.is\<close>, by which React compares dependency arrays. Values carry their
  identity and the store hands out immutable values, so it is equality of values.
\<close>

definition object_is :: "jsval \<Rightarrow> jsval \<Rightarrow> bool" where
  "object_is a b = (a = b)"

text \<open>\<^verbatim>\<open>record[ prop ]\<close> on a record of the store: undefined when the property is absent.\<close>

definition js_get :: "(string \<times> jsval) list \<Rightarrow> string \<Rightarrow> jsval" where
  "js_get rec prop = (case map_of rec prop of None \<Rightarrow> JUndefined | Some v \<Rightarrow> v)"

subsection \<open>The world: registry, dispatched edits, parser calls\<close>

text \<open>
  An entry of the table is \<^verbatim>\<open>{ context: createContext() }\<close>; a context is known by
  the number \<^verbatim>\<open>createContext\<close> gave it.
\<close>

record entity =
  context_of :: nat

text \<open>
  One call \<^verbatim>\<open>editEntityRecord( kind, type, id, edits, options )\<close> of the store's
  dispatcher. The options are absent (the four-argument call of \<^verbatim>\<open>setValue\<close>) or the
  object \<^verbatim>\<open>{ undoIgnore: true }\<close>, kept by its one property.
\<close>

record edit_call =
  edit_kind :: string
  edit_type :: string
  edit_id :: jsval
  edits :: jsval
  undoIgnore :: "bool option"

record world =
  entities :: "(string \<times> (string \<times> entity) list) list"
  contexts_created :: nat
  dispatched :: "edit_call list"
  parse_calls :: "jsval list"
  refs_allocated :: nat

definition createContext :: "world \<Rightarrow> entity \<times> world" where
  "createContext w =
     (\<lparr>context_of = contexts_created w\<rparr>, w\<lparr>contexts_created := Suc (contexts_created w)\<rparr>)"

text \<open>A new object: its identity is the next unused number.\<close>

definition alloc :: "world \<Rightarrow> nat \<times> world" where
  "alloc w = (refs_allocated w, w\<lparr>refs_allocated := Suc (refs_allocated w)\<rparr>)"

subsection \<open>The table \<^verbatim>\<open>entities\<close> (lines 19 to 31)\<close>

text \<open>
  \<^verbatim>\<open>defaultEntities\<close> and \<^verbatim>\<open>kinds\<close> come from \<^verbatim>\<open>./entities\<close>, which is not part of
  the sources at hand: they are parameters, an entity as its pair of \<^verbatim>\<open>kind\<close> and
  \<^verbatim>\<open>name\<close>, a kind as its \<^verbatim>\<open>name\<close>.
\<close>

text \<open>The reducer of lines 20 to 26, on the accumulator and the context counter.\<close>

definition defaultEntities_step ::
  "string \<times> string \<Rightarrow> (string \<times> (string \<times> entity) list) list \<times> nat
     \<Rightarrow> (string \<times> (string \<times> entity) list) list \<times> nat" where
  "defaultEntities_step e accn =
     (case e of (kind, name) \<Rightarrow> case accn of (acc, n) \<Rightarrow>
        let acc1 = (case map_of acc kind of None \<Rightarrow> AList.update kind [] acc | Some t \<Rightarrow> acc);
            tbl = (case map_of acc1 kind of None \<Rightarrow> [] | Some t \<Rightarrow> t)
        in (AList.update kind (AList.update name \<lparr>context_of = n\<rparr> tbl) acc1, Suc n))"

text \<open>The reducer of lines 27 to 30.\<close>

definition kinds_step ::
  "string \<Rightarrow> (string \<times> (string \<times> entity) list) list \<Rightarrow> (string \<times> (string \<times> entity) list) list" where
  "kinds_step kind acc = AList.update kind [] acc"

text \<open>Object spread \<^verbatim>\<open>{ ...a, ...b }\<close>: the properties of \<open>a\<close>, then those of \<open>b\<close> over them.\<close>

definition spread :: "(string \<times> 'v) list \<Rightarrow> (string \<times> 'v) list \<Rightarrow> (string \<times> 'v) list" where
  "spread a b = fold (\<lambda>kv acc. AList.update (fst kv) (snd kv) acc) b a"

definition initial_world :: "(string \<times> string) list \<Rightarrow> string list \<Rightarrow> world" where
  "initial_world defaultEntities kinds =
     (case fold defaultEntities_step defaultEntities ([], 0) of (a, n) \<Rightarrow>
        \<lparr>entities = spread a (fold kinds_step kinds []),
         contexts_created = n,
         dispatched = [],
         parse_calls = [],
         refs_allocated = 0\<rparr>)"

subsection \<open>\<^verbatim>\<open>getEntity\<close> (lines 32 to 42)\<close>

text \<open>
  The tests \<^verbatim>\<open>! entities[ kind ]\<close> and \<^verbatim>\<open>! entities[ kind ][ type ]\<close> are lookups of
  own properties here. For a name inherited from \<^verbatim>\<open>Object.prototype\<close> the code finds
  the inherited member instead: line 33 then does not throw, and line 41 returns that
  member, which has no \<^verbatim>\<open>context\<close>.
\<close>

definition getEntity :: "string \<Rightarrow> string \<Rightarrow> world \<Rightarrow> error + entity \<times> world" where
  "getEntity kind type w =
     (case map_of (entities w) kind of
        None \<Rightarrow> Inl (Error (''Missing entity config for kind: '' @ kind @ ''.''))
      | Some tbl \<Rightarrow>
          (case map_of tbl type of
             Some e \<Rightarrow> Inr (e, w)
           | None \<Rightarrow>
               (case createContext w of (e, w1) \<Rightarrow>
                  Inr (e, w1\<lparr>entities := AList.update kind (AList.update type e tbl) (entities w1)\<rparr>))))"

text \<open>The entry of a pair in the table, if the table has one.\<close>

definition lookup2 :: "(string \<times> (string \<times> 'v) list) list \<Rightarrow> string \<Rightarrow> string \<Rightarrow> 'v option" where
  "lookup2 es kind type =
     (case map_of es kind of None \<Rightarrow> None | Some tbl \<Rightarrow> map_of tbl type)"

definition entry :: "world \<Rightarrow> string \<Rightarrow> string \<Rightarrow> entity option" where
  "entry w kind type = lookup2 (entities w) kind type"

definition kind_configured :: "world \<Rightarrow> string \<Rightarrow> bool" where
  "kind_configured w kind = (map_of (entities w) kind \<noteq> None)"

subsection \<open>\<^verbatim>\<open>EntityProvider\<close> and \<^verbatim>\<open>useEntityId\<close> (lines 57 to 71)\<close>

text \<open>
  The providers above a component are a stack of pairs of a context and the value
  provided for it, the innermost first. \<^verbatim>\<open>EntityProvider\<close> renders its children
  under one more provider.
\<close>

definition EntityProvider ::
  "string \<Rightarrow> string \<Rightarrow> jsval \<Rightarrow> (nat \<times> jsval) list \<Rightarrow> world
     \<Rightarrow> error + (nat \<times> jsval) list \<times> world" where
  "EntityProvider kind type rid stack w =
     (case getEntity kind type w of
        Inl e \<Rightarrow> Inl e
      | Inr (ent, w1) \<Rightarrow> Inr ((context_of ent, rid) # stack, w1))"

text \<open>
  Modelled from the spec: \<^verbatim>\<open>useContext\<close> of React is not part of the sources at hand.
  Section 6 of the specification describes it as the scoped-value propagation that
  yields the nearest ancestor value, the innermost provider winning; a context made by
  \<^verbatim>\<open>createContext()\<close> without a default yields undefined when no provider is above.
\<close>

definition useContext :: "nat \<Rightarrow> (nat \<times> jsval) list \<Rightarrow> jsval" where
  "useContext c stack = (case map_of stack c of None \<Rightarrow> JUndefined | Some v \<Rightarrow> v)"

definition useEntityId ::
  "string \<Rightarrow> string \<Rightarrow> (nat \<times> jsval) list \<Rightarrow> world \<Rightarrow> error + jsval \<times> world" where
  "useEntityId kind type stack w =
     (case getEntity kind type w of
        Inl e \<Rightarrow> Inl e
      | Inr (ent, w1) \<Rightarrow> Inr (useContext (context_of ent) stack, w1))"

text \<open>A chain of nested \<^verbatim>\<open>EntityProvider\<close>s, the outermost first, rendered in that order.\<close>

fun render_providers ::
  "(string \<times> string \<times> jsval) list \<Rightarrow> (nat \<times> jsval) list \<Rightarrow> world
     \<Rightarrow> error + (nat \<times> jsval) list \<times> world" where
  "render_providers [] stack w = Inr (stack, w)"
| "render_providers (p # ps) stack w =
     (case EntityProvider (fst p) (fst (snd p)) (snd (snd p)) stack w of
        Inl e \<Rightarrow> Inl e
      | Inr (stack1, w1) \<Rightarrow> render_providers ps stack1 w1)"

subsection \<open>\<^verbatim>\<open>useEntityProp\<close> (lines 87 to 116)\<close>

text \<open>
  Modelled from the spec: the record store is not part of the sources at hand. Section 6
  of the specification gives its selectors as \<^verbatim>\<open>getRecord(kind,type,id)\<close> and
  \<^verbatim>\<open>getEditedRecord(kind,type,id)\<close>, each yielding a record or undefined; the state of
  the store at a render is the pair of these two functions.
\<close>

record store =
  getEntityRecord :: "string \<Rightarrow> string \<Rightarrow> jsval \<Rightarrow> (string \<times> jsval) list option"
  getEditedEntityRecord :: "string \<Rightarrow> string \<Rightarrow> jsval \<Rightarrow> (string \<times> jsval) list option"

text \<open>
  The callback given to \<^verbatim>\<open>useSelect\<close> (lines 92 to 102), with the destructuring of
  its result into \<^verbatim>\<open>value\<close> and \<^verbatim>\<open>fullValue\<close>: both are undefined for the empty object.
\<close>

definition mapSelect :: "store \<Rightarrow> string \<Rightarrow> string \<Rightarrow> jsval \<Rightarrow> string \<Rightarrow> jsval \<times> jsval" where
  "mapSelect st kind type rid prop =
     (case getEntityRecord st kind type rid of
        None \<Rightarrow> (JUndefined, JUndefined)
      | Some ent \<Rightarrow>
          (case getEditedEntityRecord st kind type rid of
             None \<Rightarrow> (JUndefined, JUndefined)
           | Some edited \<Rightarrow> (js_get edited prop, js_get ent prop)))"

text \<open>
  \<^verbatim>\<open>setValue\<close> (lines 107 to 111): the object literal is a new object, and the call of
  \<^verbatim>\<open>editEntityRecord\<close> is appended to the calls the store has received.
\<close>

definition setValue :: "string \<Rightarrow> string \<Rightarrow> jsval \<Rightarrow> string \<Rightarrow> jsval \<Rightarrow> world \<Rightarrow> world" where
  "setValue kind type rid prop newValue w =
     (case alloc w of (r, w1) \<Rightarrow>
        w1\<lparr>dispatched := dispatched w1 @
             [\<lparr>edit_kind = kind, edit_type = type, edit_id = rid,
               edits = JObj r [(prop, newValue)], undoIgnore = None\<rparr>]\<rparr>)"

text \<open>
  The hook returns \<^verbatim>\<open>[ value, setValue, fullValue ]\<close>. \<^verbatim>\<open>useSelect\<close> yields what the
  callback reads from the store at this render; \<^verbatim>\<open>useCallback\<close> lists every variable
  of the closure among its dependencies, so the setter returned is the closure of this
  render.
\<close>

definition useEntityProp ::
  "store \<Rightarrow> string \<Rightarrow> string \<Rightarrow> string \<Rightarrow> jsval \<Rightarrow> (nat \<times> jsval) list \<Rightarrow> world
     \<Rightarrow> error + (jsval \<times> (jsval \<Rightarrow> world \<Rightarrow> world) \<times> jsval) \<times> world" where
  "useEntityProp st kind type prop id_arg stack w =
     (case useEntityId kind type stack w of
        Inl e \<Rightarrow> Inl e
      | Inr (providerId, w1) \<Rightarrow>
          (let rid = nullish_coalesce id_arg providerId in
           Inr ((fst (mapSelect st kind type rid prop),
                 setValue kind type rid prop,
                 snd (mapSelect st kind type rid prop)), w1)))"

subsection \<open>\<^verbatim>\<open>useEntityBlockEditor\<close> (lines 139 to 194)\<close>

text \<open>
  The options object: \<^verbatim>\<open>blocksProp\<close> and \<^verbatim>\<open>contentProp\<close> are absent or a name,
  \<^verbatim>\<open>initialEdits\<close> and \<^verbatim>\<open>id\<close> are values, undefined when absent.
\<close>

record options =
  initialEdits :: jsval
  blocksProp :: "string option"
  contentProp :: "string option"
  id_option :: jsval

definition blocksProp_of :: "options \<Rightarrow> string" where
  "blocksProp_of opts = (case blocksProp opts of None \<Rightarrow> ''blocks'' | Some p \<Rightarrow> p)"

definition contentProp_of :: "options \<Rightarrow> string" where
  "contentProp_of opts = (case contentProp opts of None \<Rightarrow> ''content'' | Some p \<Rightarrow> p)"

text \<open>
  What one instance of the hook keeps between renders: the dependency \<^verbatim>\<open>[ id ]\<close> of
  the effect at its last run, and the dependency \<^verbatim>\<open>[ content ]\<close> of the memo with the
  memoized value. Both are empty when the component mounts.
\<close>

record hooks =
  effect_deps :: "jsval option"
  memo_cell :: "(jsval \<times> jsval) option"

definition initial_hooks :: hooks where
  "initial_hooks = \<lparr>effect_deps = None, memo_cell = None\<rparr>"

text \<open>
  Modelled from the spec: \<^verbatim>\<open>useEffect\<close> and \<^verbatim>\<open>useMemo\<close> of React are not part of the
  sources at hand. Section 4.1 of the specification describes the effect as applied on
  first resolution of an id and again only if the id itself changes, and the memo as
  keyed by the identity of the serialized value. Each has one dependency here.
\<close>

definition useEffect ::
  "(world \<Rightarrow> world) \<Rightarrow> jsval \<Rightarrow> jsval option \<Rightarrow> world \<Rightarrow> jsval option \<times> world" where
  "useEffect effect dep prev w =
     (case prev of
        None \<Rightarrow> (Some dep, effect w)
      | Some d \<Rightarrow> if object_is d dep then (prev, w) else (Some dep, effect w))"

definition useMemo ::
  "(world \<Rightarrow> jsval \<times> world) \<Rightarrow> jsval \<Rightarrow> (jsval \<times> jsval) option \<Rightarrow> world
     \<Rightarrow> (jsval \<times> (jsval \<times> jsval) option) \<times> world" where
  "useMemo create dep cell w =
     (case cell of
        None \<Rightarrow> (case create w of (v, w1) \<Rightarrow> ((v, Some (dep, v)), w1))
      | Some dv \<Rightarrow>
          if object_is (fst dv) dep then ((snd dv, cell), w)
          else (case create w of (v, w1) \<Rightarrow> ((v, Some (dep, v)), w1)))"

text \<open>The effect of lines 160 to 166.\<close>

definition initialEdits_effect :: "string \<Rightarrow> string \<Rightarrow> jsval \<Rightarrow> jsval \<Rightarrow> world \<Rightarrow> world" where
  "initialEdits_effect kind type rid initEdits w =
     (if truthy initEdits
      then w\<lparr>dispatched := dispatched w @
             [\<lparr>edit_kind = kind, edit_type = type, edit_id = rid,
               edits = initEdits, undoIgnore = Some True\<rparr>]\<rparr>
      else w)"

text \<open>
  The callback of the memo (lines 167 to 175). \<^verbatim>\<open>parse\<close> comes from
  \<^verbatim>\<open>@wordpress/blocks\<close> and is a parameter: it yields the items of a new array. Each
  call is recorded with its argument; a literal \<^verbatim>\<open>[]\<close> is a new array.
\<close>

definition initialBlocks :: "(jsval \<Rightarrow> jsval list) \<Rightarrow> jsval \<Rightarrow> world \<Rightarrow> jsval \<times> world" where
  "initialBlocks parse content w =
     (if truthy content \<and> \<not> is_function content
      then (case alloc (w\<lparr>parse_calls := parse_calls w @ [content]\<rparr>) of (r, w1) \<Rightarrow>
              if parse content \<noteq> [] then (JArr r (parse content), w1)
              else (case alloc w1 of (r1, w2) \<Rightarrow> (JArr r1 [], w2)))
      else (case alloc w of (r, w1) \<Rightarrow> (JArr r [], w1)))"

text \<open>
  \<^verbatim>\<open>onChange\<close> (lines 184 to 190): \<^verbatim>\<open>onInput\<close>, then \<^verbatim>\<open>setContent\<close> with a new
  function.
\<close>

definition onChange ::
  "(jsval \<Rightarrow> world \<Rightarrow> world) \<Rightarrow> (jsval \<Rightarrow> world \<Rightarrow> world) \<Rightarrow> jsval \<Rightarrow> world \<Rightarrow> world" where
  "onChange onInput setContent nextBlocks w =
     (case alloc (onInput nextBlocks w) of (r, w1) \<Rightarrow> setContent (JFun r Serialize_blocks) w1)"

text \<open>
  Calling a function value with one argument. The closure of lines 187 to 189
  destructures the property \<^verbatim>\<open>blocks\<close> of its argument, which throws on null and
  undefined, and hands it to \<^verbatim>\<open>serialize\<close>, a parameter (it comes from
  \<^verbatim>\<open>@wordpress/blocks\<close>). Only an object has a property of that name.
\<close>

fun call_function :: "(jsval \<Rightarrow> jsval) \<Rightarrow> fn_body \<Rightarrow> jsval \<Rightarrow> error + jsval" where
  "call_function serialize Serialize_blocks JUndefined =
     Inl (TypeError ''Cannot destructure property blocks of undefined'')"
| "call_function serialize Serialize_blocks JNull =
     Inl (TypeError ''Cannot destructure property blocks of null'')"
| "call_function serialize Serialize_blocks (JObj r kvs) = Inr (serialize (js_get kvs ''blocks''))"
| "call_function serialize Serialize_blocks v = Inr (serialize JUndefined)"

text \<open>
  One render of the hook. It returns \<^verbatim>\<open>[ blocks, onInput, onChange ]\<close> and what the
  instance keeps for its next render. The default of the destructuring
  \<^verbatim>\<open>[ blocks = initialBlocks, onInput ]\<close> applies when the value is undefined. The
  effect is registered on line 160 and runs once the render is done.
\<close>

definition useEntityBlockEditor ::
  "(jsval \<Rightarrow> jsval list) \<Rightarrow> store \<Rightarrow> string \<Rightarrow> string \<Rightarrow> options \<Rightarrow> hooks
     \<Rightarrow> (nat \<times> jsval) list \<Rightarrow> world
     \<Rightarrow> error + ((jsval \<times> (jsval \<Rightarrow> world \<Rightarrow> world) \<times> (jsval \<Rightarrow> world \<Rightarrow> world)) \<times> hooks) \<times> world" where
  "useEntityBlockEditor parse st kind type opts hs stack w =
     (case useEntityId kind type stack w of
        Inl e \<Rightarrow> Inl e
      | Inr (providerId, w1) \<Rightarrow>
          (let rid = nullish_coalesce (id_option opts) providerId in
           case useEntityProp st kind type (contentProp_of opts) rid stack w1 of
             Inl e \<Rightarrow> Inl e
           | Inr ((content, setContent, contentFull), w2) \<Rightarrow>
               (case useMemo (initialBlocks parse content) content (memo_cell hs) w2 of
                  ((initBlocks, cell), w3) \<Rightarrow>
                    (case useEntityProp st kind type (blocksProp_of opts) rid stack w3 of
                       Inl e \<Rightarrow> Inl e
                     | Inr ((blocksValue, onInput, blocksFull), w4) \<Rightarrow>
                         (case useEffect (initialEdits_effect kind type rid (initialEdits opts))
                                 rid (effect_deps hs) w4 of
                            (deps, w5) \<Rightarrow>
                              Inr (((if blocksValue = JUndefined then initBlocks else blocksValue,
                                     onInput,
                                     onChange onInput setContent),
                                    \<lparr>effect_deps = deps, memo_cell = cell\<rparr>), w5))))))"

text \<open>
  Successive renders of one instance of the hook, each with the state of the store,
  the options and the providers of that render.
\<close>

fun renders ::
  "(jsval \<Rightarrow> jsval list) \<Rightarrow> string \<Rightarrow> string \<Rightarrow> (store \<times> options \<times> (nat \<times> jsval) list) list
     \<Rightarrow> hooks \<Rightarrow> world \<Rightarrow> error + hooks \<times> world" where
  "renders parse kind type [] hs w = Inr (hs, w)"
| "renders parse kind type (x # xs) hs w =
     (case useEntityBlockEditor parse (fst x) kind type (fst (snd x)) hs (snd (snd x)) w of
        Inl e \<Rightarrow> Inl e
      | Inr (res, w1) \<Rightarrow> renders parse kind type xs (snd res) w1)"

subsection \<open>Notions the properties are stated with\<close>

text \<open>A pair is registered when the table has an entry for it.\<close>

definition registered :: "world \<Rightarrow> string \<Rightarrow> string \<Rightarrow> bool" where
  "registered w kind type = (entry w kind type \<noteq> None)"

text \<open>
  References to pairs, one after the other; a reference that throws leaves the table
  as it was.
\<close>

fun references :: "(string \<times> string) list \<Rightarrow> world \<Rightarrow> world" where
  "references [] w = w"
| "references (p # ps) w =
     (case getEntity (fst p) (snd p) w of
        Inl e \<Rightarrow> references ps w
      | Inr (ent, w1) \<Rightarrow> references ps w1)"

text \<open>
  The table is well formed for a counter when every context in it was created (its
  number is below the counter) and no context belongs to two pairs.
\<close>

definition table_inv :: "(string \<times> (string \<times> entity) list) list \<Rightarrow> nat \<Rightarrow> bool" where
  "table_inv es n =
     ((\<forall>k t e. lookup2 es k t = Some e \<longrightarrow> context_of e < n) \<and>
      (\<forall>k t k' t' e. lookup2 es k t = Some e \<longrightarrow> lookup2 es k' t' = Some e \<longrightarrow> k = k' \<and> t = t'))"

definition reg_inv :: "world \<Rightarrow> bool" where
  "reg_inv w = table_inv (entities w) (contexts_created w)"

text \<open>
  The id established by the nearest enclosing \<^verbatim>\<open>EntityProvider\<close> of a pair, in a chain
  of providers given outermost first; undefined when the chain has none for the pair.
\<close>

definition nearest_scope :: "(string \<times> string \<times> jsval) list \<Rightarrow> string \<Rightarrow> string \<Rightarrow> jsval" where
  "nearest_scope ps kind type =
     (case find (\<lambda>p. fst p = kind \<and> fst (snd p) = type) (rev ps) of
        None \<Rightarrow> JUndefined
      | Some p \<Rightarrow> snd (snd p))"

text \<open>The id a hook works with when it is called in a world under a stack of providers.\<close>

definition effective_id ::
  "world \<Rightarrow> string \<Rightarrow> string \<Rightarrow> jsval \<Rightarrow> (nat \<times> jsval) list \<Rightarrow> jsval" where
  "effective_id w kind type id_arg stack =
     (case useEntityId kind type stack w of
        Inl e \<Rightarrow> JUndefined
      | Inr (providerId, w1) \<Rightarrow> nullish_coalesce id_arg providerId)"

text \<open>The items of an array; no other value is a sequence of document nodes.\<close>

fun array_items :: "jsval \<Rightarrow> jsval list option" where
  "array_items (JArr r xs) = Some xs"
| "array_items v = None"

text \<open>What parsing the serialized value gives, the parser being skipped for the guard of line 170.\<close>

definition parsed_items :: "(jsval \<Rightarrow> jsval list) \<Rightarrow> jsval \<Rightarrow> jsval list" where
  "parsed_items parse content = (if truthy content \<and> \<not> is_function content then parse content else [])"

text \<open>The memo of an instance holds, for its key, an array of the items parsed from the key.\<close>

definition memo_inv :: "(jsval \<Rightarrow> jsval list) \<Rightarrow> hooks \<Rightarrow> bool" where
  "memo_inv parse hs =
     (case memo_cell hs of
        None \<Rightarrow> True
      | Some cv \<Rightarrow> array_items (snd cv) = Some (parsed_items parse (fst cv)))"

text \<open>
  The working document in the words of the specification (section 4.1): the structured
  value if it is present and a sequence of document nodes, otherwise the parse of the
  serialized value, which is empty when that value is absent or a function.
\<close>

definition spec_document_items :: "(jsval \<Rightarrow> jsval list) \<Rightarrow> jsval \<Rightarrow> jsval \<Rightarrow> jsval list" where
  "spec_document_items parse blocksValue content =
     (case array_items blocksValue of
        Some xs \<Rightarrow> xs
      | None \<Rightarrow> if content = JUndefined \<or> content = JNull \<or> is_function content then []
                else parse content)"

text \<open>
  A stack is what a chain of providers (outermost first) provides in a world: one pair
  per provider, the innermost first, with the context of the provider's entry and its id.
\<close>

definition provided :: "world \<Rightarrow> (string \<times> string \<times> jsval) list \<Rightarrow> (nat \<times> jsval) list \<Rightarrow> bool" where
  "provided w ps stack =
     list_all2 (\<lambda>p s. entry w (fst p) (fst (snd p)) = Some \<lparr>context_of = fst s\<rparr> \<and> snd s = snd (snd p))
       (rev ps) stack"

text \<open>The names of the own properties of an object.\<close>

fun fields_of :: "jsval \<Rightarrow> string list" where
  "fields_of (JObj r kvs) = map fst kvs"
| "fields_of v = []"

text \<open>The document a render returned, if it returned.\<close>

definition document_of :: "error + ((jsval \<times> 'a) \<times> 'b) \<times> 'c \<Rightarrow> jsval option" where
  "document_of r = (case r of Inl e \<Rightarrow> None | Inr x \<Rightarrow> Some (fst (fst (fst x))))"

text \<open>The call by which the effect of lines 160 to 166 applies initial edits for an id.\<close>

definition seed_call :: "string \<Rightarrow> string \<Rightarrow> jsval \<Rightarrow> jsval \<Rightarrow> edit_call" where
  "seed_call kind type initEdits rid =
     \<lparr>edit_kind = kind, edit_type = type, edit_id = rid, edits = initEdits, undoIgnore = Some True\<rparr>"

text \<open>
  The calls of the effect over the renders of an instance, from the dependency of its
  last run and, render by render, the effective id and the initial edits: a render
  dispatches when its id is not that of the run before (or there was none) and its
  initial edits are truthy.
\<close>

fun seed_calls :: "string \<Rightarrow> string \<Rightarrow> jsval option \<Rightarrow> (jsval \<times> jsval) list \<Rightarrow> edit_call list" where
  "seed_calls kind type prev [] = []"
| "seed_calls kind type prev (x # xs) =
     (if prev \<noteq> Some (fst x) \<and> truthy (snd x) then [seed_call kind type (snd x) (fst x)] else []) @
     seed_calls kind type (Some (fst x)) xs"

text \<open>The calls the store has received after a run of renders, none if a render threw.\<close>

definition dispatched_after :: "error + 'a \<times> world \<Rightarrow> edit_call list" where
  "dispatched_after r = (case r of Inl e \<Rightarrow> [] | Inr x \<Rightarrow> dispatched (snd x))"

text \<open>
  The names that every plain object inherits from \<^verbatim>\<open>Object.prototype\<close> (ECMAScript,
  with the accessors of its annex B). The tables \<^verbatim>\<open>entities\<close> and \<^verbatim>\<open>entities[kind]\<close>
  are plain objects: for such a name that is not an own property, \<^verbatim>\<open>entities[kind]\<close>
  and \<^verbatim>\<open>entities[kind][type]\<close> yield the inherited member, where \<open>map_of\<close> finds
  nothing. On every other name the lookups of the code and of the model agree.
\<close>

definition object_prototype_names :: "string list" where
  "object_prototype_names =
     [''constructor'', ''hasOwnProperty'', ''isPrototypeOf'', ''propertyIsEnumerable'',
      ''toLocaleString'', ''toString'', ''valueOf'', ''__proto__'',
      ''__defineGetter__'', ''__defineSetter__'', ''__lookupGetter__'', ''__lookupSetter__'']"

definition inherited_name :: "string \<Rightarrow> bool" where
  "inherited_name s = (s \<in> set object_prototype_names)"

text \<open>
  A table is plain when none of the names it holds, of kinds and of types, is inherited.
  A configuration of entity kinds and names gives such a table; for a configuration
  that writes to an inherited name (\<^verbatim>\<open>__proto__\<close>) the statements of the code change
  the prototype and not the table.
\<close>

definition plain_tables :: "world \<Rightarrow> bool" where
  "plain_tables w =
     list_all (\<lambda>kt. \<not> inherited_name (fst kt) \<and> list_all (\<lambda>te. \<not> inherited_name (fst te)) (snd kt))
       (entities w)"

section \<open>Properties\<close>

subsection \<open>The table and \<^verbatim>\<open>getEntity\<close>\<close>

lemma lookup2_update_inner:
  "map_of es k = Some tbl \<Longrightarrow>
   lookup2 (AList.update k (AList.update t e tbl) es) k' t' =
     (if k' = k \<and> t' = t then Some e else lookup2 es k' t')"
  by (auto simp: lookup2_def update_conv')

lemma lookup2_update_empty:
  "lookup2 (AList.update k [] es) k' t' = (if k' = k then None else lookup2 es k' t')"
  by (auto simp: lookup2_def update_conv')

lemma table_inv_add:
  assumes inv: "table_inv es n" and tbl: "map_of es k = Some tbl"
  shows "table_inv (AList.update k (AList.update t \<lparr>context_of = n\<rparr> tbl) es) (Suc n)"
proof -
  let ?es = "AList.update k (AList.update t \<lparr>context_of = n\<rparr> tbl) es"
  have bound: "\<And>k t e. lookup2 es k t = Some e \<Longrightarrow> context_of e < n"
    using inv unfolding table_inv_def by blast
  have inj: "\<And>k t k' t' e. lookup2 es k t = Some e \<Longrightarrow> lookup2 es k' t' = Some e \<Longrightarrow> k = k' \<and> t = t'"
    using inv unfolding table_inv_def by blast
  have new: "\<And>k' t'. lookup2 ?es k' t' = (if k' = k \<and> t' = t then Some \<lparr>context_of = n\<rparr> else lookup2 es k' t')"
    using tbl by (rule lookup2_update_inner)
  have fresh: "\<And>k' t'. lookup2 es k' t' \<noteq> Some \<lparr>context_of = n\<rparr>"
  proof
    fix k' t' assume "lookup2 es k' t' = Some \<lparr>context_of = n\<rparr>"
    from bound[OF this] show False by simp
  qed
  show ?thesis
    unfolding table_inv_def
  proof (rule conjI; intro allI impI)
    fix k' t' e assume "lookup2 ?es k' t' = Some e"
    then show "context_of e < Suc n"
      using bound[of k' t' e] by (auto simp: new less_Suc_eq split: if_splits)
  next
    fix k1 t1 k2 t2 e
    assume a: "lookup2 ?es k1 t1 = Some e" and b: "lookup2 ?es k2 t2 = Some e"
    show "k1 = k2 \<and> t1 = t2"
    proof (cases "k1 = k \<and> t1 = t")
      case True
      with a have e: "e = \<lparr>context_of = n\<rparr>" by (simp add: new)
      show ?thesis
      proof (cases "k2 = k \<and> t2 = t")
        case True
        with \<open>k1 = k \<and> t1 = t\<close> show ?thesis by simp
      next
        case False
        with b e fresh[of k2 t2] show ?thesis by (simp add: new)
      qed
    next
      case False
      with a have a': "lookup2 es k1 t1 = Some e" by (simp add: new)
      show ?thesis
      proof (cases "k2 = k \<and> t2 = t")
        case True
        with b have "e = \<lparr>context_of = n\<rparr>" by (simp add: new)
        with a' fresh[of k1 t1] show ?thesis by simp
      next
        case False
        with b have "lookup2 es k2 t2 = Some e" by (simp add: new)
        with a' show ?thesis by (rule inj)
      qed
    qed
  qed
qed

lemma table_inv_reset:
  assumes "table_inv es n"
  shows "table_inv (AList.update k [] es) n"
  using assms unfolding table_inv_def
  by (auto simp: lookup2_update_empty split: if_splits)

lemma table_inv_step:
  assumes "table_inv acc n"
  shows "case defaultEntities_step e (acc, n) of (acc', n') \<Rightarrow> table_inv acc' n'"
proof (cases e)
  case (Pair kind name)
  show ?thesis
  proof (cases "map_of acc kind")
    case None
    have "table_inv (AList.update kind [] acc) n" using assms by (rule table_inv_reset)
    moreover have "map_of (AList.update kind [] acc) kind = Some []" by (simp add: update_conv')
    ultimately have "table_inv (AList.update kind (AList.update name \<lparr>context_of = n\<rparr> []) (AList.update kind [] acc)) (Suc n)"
      by (rule table_inv_add)
    then show ?thesis using None Pair by (simp add: defaultEntities_step_def update_conv')
  next
    case (Some tbl)
    from assms Some have "table_inv (AList.update kind (AList.update name \<lparr>context_of = n\<rparr> tbl) acc) (Suc n)"
      by (rule table_inv_add)
    then show ?thesis using Some Pair by (simp add: defaultEntities_step_def)
  qed
qed

lemma table_inv_fold:
  "table_inv acc n \<Longrightarrow> case fold defaultEntities_step des (acc, n) of (acc', n') \<Rightarrow> table_inv acc' n'"
proof (induction des arbitrary: acc n)
  case Nil
  then show ?case by simp
next
  case (Cons d des)
  obtain acc1 n1 where s: "defaultEntities_step d (acc, n) = (acc1, n1)" by (cases "defaultEntities_step d (acc, n)")
  with table_inv_step[OF Cons.prems, of d] have "table_inv acc1 n1" by simp
  from Cons.IH[OF this] show ?case by (simp add: s)
qed

lemma table_inv_empty: "table_inv [] 0"
  by (simp add: table_inv_def lookup2_def)

lemma kinds_fold_values:
  "(\<forall>kv \<in> set acc. snd kv = []) \<Longrightarrow> \<forall>kv \<in> set (fold kinds_step ks acc). snd kv = []"
proof (induction ks arbitrary: acc)
  case Nil
  then show ?case by simp
next
  case (Cons k ks)
  have "\<forall>kv \<in> set (AList.update k [] acc). snd kv = ([]::(string \<times> entity) list)"
    using Cons.prems by (induction acc) auto
  from Cons.IH[OF this] show ?case by (simp add: kinds_step_def)
qed

lemma spread_lookup:
  "map_of (spread a b) k = Some v \<Longrightarrow> map_of a k = Some v \<or> (k, v) \<in> set b"
  unfolding spread_def
proof (induction b arbitrary: a)
  case Nil
  then show ?case by simp
next
  case (Cons x b)
  from Cons.IH[of "AList.update (fst x) (snd x) a"] Cons.prems
  have "map_of (AList.update (fst x) (snd x) a) k = Some v \<or> (k, v) \<in> set b" by simp
  then show ?case by (auto simp: update_conv' split: if_splits)
qed

lemma lookup2_spread:
  assumes "\<forall>kv \<in> set b. snd kv = []" "lookup2 (spread a b) k t = Some e"
  shows "lookup2 a k t = Some e"
proof -
  from assms(2) obtain tbl where m: "map_of (spread a b) k = Some tbl" and t: "map_of tbl t = Some e"
    by (auto simp: lookup2_def split: option.splits)
  from spread_lookup[OF m] show ?thesis
  proof
    assume "map_of a k = Some tbl" with t show ?thesis by (simp add: lookup2_def)
  next
    assume "(k, tbl) \<in> set b" with assms(1) have "tbl = []" by auto
    with t show ?thesis by simp
  qed
qed

lemma reg_inv_initial_world: "reg_inv (initial_world des ks)"
proof -
  obtain a n where f: "fold defaultEntities_step des ([], 0) = (a, n)"
    by (cases "fold defaultEntities_step des ([], 0)")
  from table_inv_fold[OF table_inv_empty, of des] f have ta: "table_inv a n" by simp
  have b: "\<forall>kv \<in> set (fold kinds_step ks []). snd kv = ([]::(string \<times> entity) list)"
    by (rule kinds_fold_values) simp
  have "table_inv (spread a (fold kinds_step ks [])) n"
    unfolding table_inv_def
  proof (rule conjI; intro allI impI)
    fix k t e assume "lookup2 (spread a (fold kinds_step ks [])) k t = Some e"
    from lookup2_spread[OF b this] ta show "context_of e < n" by (auto simp: table_inv_def)
  next
    fix k t k' t' e
    assume "lookup2 (spread a (fold kinds_step ks [])) k t = Some e"
      and "lookup2 (spread a (fold kinds_step ks [])) k' t' = Some e"
    then have "lookup2 a k t = Some e" "lookup2 a k' t' = Some e" by (auto dest: lookup2_spread[OF b])
    with ta show "k = k' \<and> t = t'" unfolding table_inv_def by blast
  qed
  then show ?thesis by (simp add: reg_inv_def initial_world_def f)
qed

lemma getEntity_missing:
  "\<not> kind_configured w kind \<Longrightarrow>
   getEntity kind type w = Inl (Error (''Missing entity config for kind: '' @ kind @ ''.''))"
  by (simp add: getEntity_def kind_configured_def)

lemma getEntity_existing:
  "entry w kind type = Some e \<Longrightarrow> getEntity kind type w = Inr (e, w)"
  by (auto simp: getEntity_def entry_def lookup2_def split: option.splits)

lemma getEntity_new:
  assumes "map_of (entities w) kind = Some tbl" "map_of tbl type = None"
  shows "getEntity kind type w =
     Inr (\<lparr>context_of = contexts_created w\<rparr>,
          w\<lparr>contexts_created := Suc (contexts_created w),
            entities := AList.update kind (AList.update type \<lparr>context_of = contexts_created w\<rparr> tbl) (entities w)\<rparr>)"
  using assms by (simp add: getEntity_def createContext_def)

lemma getEntity_configured:
  "kind_configured w kind \<Longrightarrow> \<exists>e w1. getEntity kind type w = Inr (e, w1)"
  by (auto simp: getEntity_def kind_configured_def createContext_def split: option.splits)

lemma getEntity_Inr_configured:
  "getEntity kind type w = Inr (e, w1) \<Longrightarrow> kind_configured w kind"
  by (auto simp: getEntity_def kind_configured_def split: option.splits)

lemma getEntity_Inr_cases:
  assumes "getEntity kind type w = Inr (e, w1)"
  obtains (old) "entry w kind type = Some e" "w1 = w"
  | (new) tbl where "map_of (entities w) kind = Some tbl" "map_of tbl type = None"
      "e = \<lparr>context_of = contexts_created w\<rparr>"
      "w1 = w\<lparr>contexts_created := Suc (contexts_created w),
            entities := AList.update kind (AList.update type \<lparr>context_of = contexts_created w\<rparr> tbl) (entities w)\<rparr>"
  using assms
  by (auto simp: getEntity_def createContext_def entry_def lookup2_def split: option.splits)

lemma getEntity_entry:
  assumes "getEntity kind type w = Inr (e, w1)"
  shows "entry w1 kind type = Some e"
  using assms
proof (cases rule: getEntity_Inr_cases)
  case old
  then show ?thesis by simp
next
  case (new tbl)
  then show ?thesis by (simp add: entry_def lookup2_update_inner)
qed

lemma getEntity_other:
  assumes "getEntity kind type w = Inr (e, w1)" "k \<noteq> kind \<or> t \<noteq> type"
  shows "entry w1 k t = entry w k t"
  using assms(1)
proof (cases rule: getEntity_Inr_cases)
  case old
  then show ?thesis by simp
next
  case (new tbl)
  with assms(2) show ?thesis by (auto simp: entry_def lookup2_update_inner)
qed

lemma getEntity_preserves:
  assumes "getEntity kind type w = Inr (e, w1)" "entry w k t = Some x"
  shows "entry w1 k t = Some x"
proof (cases "k = kind \<and> t = type")
  case True
  with assms(2) have "getEntity kind type w = Inr (x, w)" by (simp add: getEntity_existing)
  with assms True show ?thesis by simp
next
  case False
  with getEntity_other[OF assms(1), of k t] assms(2) show ?thesis by auto
qed

lemma getEntity_again:
  "getEntity kind type w = Inr (e, w1) \<Longrightarrow> getEntity kind type w1 = Inr (e, w1)"
  by (rule getEntity_existing) (rule getEntity_entry)

lemma getEntity_kind_configured:
  "getEntity kind type w = Inr (e, w1) \<Longrightarrow> kind_configured w1 k = kind_configured w k"
  by (auto simp: getEntity_def kind_configured_def createContext_def update_conv'
      split: option.splits prod.splits if_splits)

lemma getEntity_frame:
  "getEntity kind type w = Inr (e, w1) \<Longrightarrow>
   dispatched w1 = dispatched w \<and> parse_calls w1 = parse_calls w \<and> refs_allocated w1 = refs_allocated w"
  by (auto simp: getEntity_def createContext_def split: option.splits prod.splits)

lemma getEntity_reg_inv:
  assumes "getEntity kind type w = Inr (e, w1)" "reg_inv w"
  shows "reg_inv w1"
proof (cases "entry w kind type")
  case (Some x)
  with assms show ?thesis by (simp add: getEntity_existing)
next
  case None
  from assms(1) obtain tbl where tbl: "map_of (entities w) kind = Some tbl"
    by (auto simp: getEntity_def split: option.splits)
  with None have "map_of tbl type = None" by (simp add: entry_def lookup2_def)
  from getEntity_new[OF tbl this] assms(1)
  have w1: "w1 = w\<lparr>contexts_created := Suc (contexts_created w),
            entities := AList.update kind (AList.update type \<lparr>context_of = contexts_created w\<rparr> tbl) (entities w)\<rparr>"
    by simp
  from assms(2) tbl show ?thesis
    unfolding w1 reg_inv_def by (simp add: table_inv_add)
qed

lemma references_entry:
  "entry w k t = Some x \<Longrightarrow> entry (references rs w) k t = Some x"
proof (induction rs arbitrary: w)
  case Nil
  then show ?case by simp
next
  case (Cons r rs)
  show ?case
  proof (cases "getEntity (fst r) (snd r) w")
    case (Inl err)
    with Cons show ?thesis by simp
  next
    case (Inr p)
    obtain ent w1 where p: "p = (ent, w1)" by (cases p)
    from getEntity_preserves[OF Inr[unfolded p] Cons.prems] have "entry w1 k t = Some x" .
    from Cons.IH[OF this] Inr p show ?thesis by simp
  qed
qed

subsection \<open>The hooks along a successful reference\<close>

lemma nullish_coalesce_same: "nullish_coalesce b b = b"
  by (cases b) simp_all

lemma nullish_coalesce_idem: "nullish_coalesce (nullish_coalesce a b) b = nullish_coalesce a b"
  by (cases a) (simp_all add: nullish_coalesce_same)

lemma useEntityId_eq:
  "getEntity kind type w = Inr (e, w1) \<Longrightarrow>
   useEntityId kind type stack w = Inr (useContext (context_of e) stack, w1)"
  by (simp add: useEntityId_def)

lemma useEntityId_missing:
  "\<not> kind_configured w kind \<Longrightarrow>
   useEntityId kind type stack w = Inl (Error (''Missing entity config for kind: '' @ kind @ ''.''))"
  by (simp add: useEntityId_def getEntity_missing)

lemma useEntityProp_eq:
  "getEntity kind type w = Inr (e, w1) \<Longrightarrow>
   useEntityProp st kind type prop i stack w =
     Inr ((fst (mapSelect st kind type (nullish_coalesce i (useContext (context_of e) stack)) prop),
           setValue kind type (nullish_coalesce i (useContext (context_of e) stack)) prop,
           snd (mapSelect st kind type (nullish_coalesce i (useContext (context_of e) stack)) prop)), w1)"
  by (simp add: useEntityProp_def useEntityId_eq Let_def)

lemma initialBlocks_frame:
  "initialBlocks parse content w = (v, w1) \<Longrightarrow>
   entities w1 = entities w \<and> contexts_created w1 = contexts_created w \<and> dispatched w1 = dispatched w"
  by (auto simp: initialBlocks_def alloc_def split: if_splits prod.splits)

lemma useMemo_frame:
  "useMemo (initialBlocks parse content) dep cell w = (r, w1) \<Longrightarrow>
   entities w1 = entities w \<and> contexts_created w1 = contexts_created w \<and> dispatched w1 = dispatched w"
  by (auto simp: useMemo_def split: option.splits if_splits prod.splits dest: initialBlocks_frame)

lemma getEntity_cong:
  assumes "getEntity kind type w = Inr (e, w)" "entities w' = entities w"
  shows "getEntity kind type w' = Inr (e, w')"
proof -
  from assms(1) have "entry w kind type = Some e" by (rule getEntity_entry)
  with assms(2) have "entry w' kind type = Some e" by (simp add: entry_def)
  then show ?thesis by (rule getEntity_existing)
qed

text \<open>The render, unfolded along a successful first reference.\<close>

lemma useEntityBlockEditor_eq:
  assumes g: "getEntity kind type w = Inr (e, w1)"
    and rid: "rid = nullish_coalesce (id_option opts) (useContext (context_of e) stack)"
    and content: "content = fst (mapSelect st kind type rid (contentProp_of opts))"
    and memo: "useMemo (initialBlocks parse content) content (memo_cell hs) w1 = ((initBlocks, cell), w3)"
    and bv: "blocksValue = fst (mapSelect st kind type rid (blocksProp_of opts))"
    and eff: "useEffect (initialEdits_effect kind type rid (initialEdits opts)) rid (effect_deps hs) w3 = (deps, w5)"
  shows "useEntityBlockEditor parse st kind type opts hs stack w =
     Inr (((if blocksValue = JUndefined then initBlocks else blocksValue,
            setValue kind type rid (blocksProp_of opts),
            onChange (setValue kind type rid (blocksProp_of opts)) (setValue kind type rid (contentProp_of opts))),
           \<lparr>effect_deps = deps, memo_cell = cell\<rparr>), w5)"
proof -
  have g1: "getEntity kind type w1 = Inr (e, w1)" using g by (rule getEntity_again)
  have "entities w3 = entities w1" using useMemo_frame[OF memo] by simp
  with g1 have g3: "getEntity kind type w3 = Inr (e, w3)" by (rule getEntity_cong)
  have r: "nullish_coalesce rid (useContext (context_of e) stack) = rid"
    unfolding rid by (rule nullish_coalesce_idem)
  show ?thesis
    unfolding useEntityBlockEditor_def
    by (simp add: useEntityId_eq[OF g] useEntityProp_eq[OF g1] useEntityProp_eq[OF g3] Let_def
        rid[symmetric] r content[symmetric] memo bv[symmetric] eff)
qed

lemma useEntityBlockEditor_missing:
  "\<not> kind_configured w kind \<Longrightarrow>
   useEntityBlockEditor parse st kind type opts hs stack w =
     Inl (Error (''Missing entity config for kind: '' @ kind @ ''.''))"
  by (simp add: useEntityBlockEditor_def useEntityId_missing)

lemma useEntityProp_missing:
  "\<not> kind_configured w kind \<Longrightarrow>
   useEntityProp st kind type prop i stack w =
     Inl (Error (''Missing entity config for kind: '' @ kind @ ''.''))"
  by (simp add: useEntityProp_def useEntityId_missing)

lemma EntityProvider_missing:
  "\<not> kind_configured w kind \<Longrightarrow>
   EntityProvider kind type i stack w =
     Inl (Error (''Missing entity config for kind: '' @ kind @ ''.''))"
  by (simp add: EntityProvider_def getEntity_missing)

lemma useEntityBlockEditor_configured:
  assumes "kind_configured w kind"
  shows "\<exists>r. useEntityBlockEditor parse st kind type opts hs stack w = Inr r"
proof -
  from getEntity_configured[OF assms] obtain e w1 where g: "getEntity kind type w = Inr (e, w1)" by blast
  define rid where "rid = nullish_coalesce (id_option opts) (useContext (context_of e) stack)"
  define content where "content = fst (mapSelect st kind type rid (contentProp_of opts))"
  obtain ib cell w3 where m: "useMemo (initialBlocks parse content) content (memo_cell hs) w1 = ((ib, cell), w3)"
    by (metis prod.exhaust)
  obtain deps w5 where ef: "useEffect (initialEdits_effect kind type rid (initialEdits opts)) rid (effect_deps hs) w3 = (deps, w5)"
    by (metis prod.exhaust)
  from useEntityBlockEditor_eq[OF g rid_def content_def m refl ef] show ?thesis by blast
qed

subsection \<open>Providers and the id a hook resolves\<close>

lemma entity_eq: "(e::entity) = \<lparr>context_of = context_of e\<rparr>"
  by simp

lemma provided_useContext:
  assumes inv: "reg_inv w" and e: "entry w kind type = Some e"
    and p: "list_all2 (\<lambda>p s. entry w (fst p) (fst (snd p)) = Some \<lparr>context_of = fst s\<rparr> \<and> snd s = snd (snd p)) qs stack"
  shows "useContext (context_of e) stack =
     (case find (\<lambda>p. fst p = kind \<and> fst (snd p) = type) qs of None \<Rightarrow> JUndefined | Some p \<Rightarrow> snd (snd p))"
  using p
proof (induction qs stack rule: list_all2_induct)
  case Nil
  then show ?case by (simp add: useContext_def)
next
  case (Cons q qs s stack)
  have inj: "\<And>k t k' t' x. entry w k t = Some x \<Longrightarrow> entry w k' t' = Some x \<Longrightarrow> k = k' \<and> t = t'"
    using inv unfolding reg_inv_def table_inv_def entry_def by blast
  from Cons.hyps(1) have q: "entry w (fst q) (fst (snd q)) = Some \<lparr>context_of = fst s\<rparr>"
    and s: "snd s = snd (snd q)" by simp_all
  show ?case
  proof (cases "fst q = kind \<and> fst (snd q) = type")
    case True
    with q e have "context_of e = fst s" by auto
    with True s show ?thesis by (cases s) (simp add: useContext_def)
  next
    case False
    have "fst s \<noteq> context_of e"
    proof
      assume "fst s = context_of e"
      with q have "entry w (fst q) (fst (snd q)) = Some e" by simp
      from inj[OF this e] False show False by simp
    qed
    with False Cons.IH show ?thesis by (cases s) (auto simp: useContext_def)
  qed
qed

lemma provided_nearest:
  assumes "reg_inv w" "entry w kind type = Some e" "provided w ps stack"
  shows "useContext (context_of e) stack = nearest_scope ps kind type"
  using provided_useContext[OF assms(1,2) assms(3)[unfolded provided_def]]
  by (simp add: nearest_scope_def)

lemma provided_mono:
  assumes "provided w ps stack" "\<And>k t x. entry w k t = Some x \<Longrightarrow> entry w1 k t = Some x"
  shows "provided w1 ps stack"
  using assms unfolding provided_def
  by (auto elim!: list_all2_mono)

lemma EntityProvider_provided:
  assumes ep: "EntityProvider k t i stack w = Inr (stack1, w1)" and p: "provided w ps stack"
  shows "provided w1 (ps @ [(k, t, i)]) stack1"
proof -
  from ep obtain e where g: "getEntity k t w = Inr (e, w1)" and s1: "stack1 = (context_of e, i) # stack"
    by (auto simp: EntityProvider_def split: sum.splits)
  have "provided w1 ps stack" using p getEntity_preserves[OF g] by (rule provided_mono)
  moreover have "entry w1 k t = Some \<lparr>context_of = context_of e\<rparr>" using getEntity_entry[OF g] by simp
  ultimately show ?thesis by (simp add: provided_def s1)
qed

lemma render_providers_provided:
  assumes "render_providers qs stack w = Inr (stack1, w1)" "provided w ps stack" "reg_inv w"
  shows "provided w1 (ps @ qs) stack1 \<and> reg_inv w1 \<and> (\<forall>k. kind_configured w1 k = kind_configured w k)"
  using assms
proof (induction qs arbitrary: stack w ps)
  case Nil
  then show ?case by simp
next
  case (Cons q qs)
  from Cons.prems(1) obtain stack2 w2 where
    ep: "EntityProvider (fst q) (fst (snd q)) (snd (snd q)) stack w = Inr (stack2, w2)"
    and rest: "render_providers qs stack2 w2 = Inr (stack1, w1)"
    by (auto split: sum.splits)
  from ep obtain e where g: "getEntity (fst q) (fst (snd q)) w = Inr (e, w2)"
    by (auto simp: EntityProvider_def split: sum.splits)
  have p2: "provided w2 (ps @ [q]) stack2"
    using EntityProvider_provided[OF ep Cons.prems(2)] by simp
  have i2: "reg_inv w2" using g Cons.prems(3) by (rule getEntity_reg_inv)
  from Cons.IH[OF rest p2 i2] getEntity_kind_configured[OF g] show ?case by simp
qed

lemma effective_id_eq:
  "getEntity kind type w = Inr (e, w1) \<Longrightarrow>
   effective_id w kind type i stack = nullish_coalesce i (useContext (context_of e) stack)"
  by (simp add: effective_id_def useEntityId_eq)

lemma nullish_coalesce_if:
  "nullish_coalesce a b = (if a = JUndefined \<or> a = JNull then b else a)"
  by (cases a) simp_all

lemma setValue_eq:
  "setValue kind type rid prop nv u =
     u\<lparr>refs_allocated := Suc (refs_allocated u),
       dispatched := dispatched u @
         [\<lparr>edit_kind = kind, edit_type = type, edit_id = rid,
           edits = JObj (refs_allocated u) [(prop, nv)], undoIgnore = None\<rparr>]\<rparr>"
  by (simp add: setValue_def alloc_def)

lemma useEffect_first:
  "useEffect eff dep None w = (Some dep, eff w)"
  by (simp add: useEffect_def)

text \<open>Unfolding a concrete configuration.\<close>

lemmas world_eval = kind_configured_def initial_world_def defaultEntities_step_def kinds_step_def spread_def

lemmas id_eval = effective_id_def useEntityId_def getEntity_def createContext_def useContext_def

subsection \<open>Renders of \<^verbatim>\<open>useEntityBlockEditor\<close>\<close>

lemma initialBlocks_items:
  "initialBlocks parse content w = (v, w1) \<Longrightarrow> array_items v = Some (parsed_items parse content)"
  by (auto simp: initialBlocks_def parsed_items_def alloc_def split: if_splits prod.splits)

lemma initialBlocks_parse_calls:
  "initialBlocks parse content w = (v, w1) \<Longrightarrow>
   parse_calls w1 = (if truthy content \<and> \<not> is_function content then parse_calls w @ [content] else parse_calls w)"
  by (auto simp: initialBlocks_def alloc_def split: if_splits prod.splits)

lemma useMemo_hit:
  "useMemo create dep (Some (dep, v)) w = ((v, Some (dep, v)), w)"
  by (simp add: useMemo_def object_is_def)

lemma useMemo_key:
  "useMemo create dep cell w = ((v, cell1), w1) \<Longrightarrow> cell1 = Some (dep, v)"
  by (auto simp: useMemo_def object_is_def split: option.splits if_splits prod.splits)

lemma useMemo_items:
  assumes m: "useMemo (initialBlocks parse content) content (memo_cell hs) w = ((v, cell1), w1)"
    and inv: "memo_inv parse hs"
  shows "array_items v = Some (parsed_items parse content)"
proof (cases "memo_cell hs")
  case None
  with m obtain "initialBlocks parse content w = (v, w1)"
    by (auto simp: useMemo_def split: prod.splits)
  then show ?thesis by (rule initialBlocks_items)
next
  case (Some cv)
  show ?thesis
  proof (cases "fst cv = content")
    case True
    with m Some have "v = snd cv" by (simp add: useMemo_def object_is_def)
    with inv Some True show ?thesis by (simp add: memo_inv_def)
  next
    case False
    with m Some have "initialBlocks parse content w = (v, w1)"
      by (auto simp: useMemo_def object_is_def split: prod.splits)
    then show ?thesis by (rule initialBlocks_items)
  qed
qed

lemma useMemo_parse_calls:
  assumes m: "useMemo (initialBlocks parse content) content cell w = ((v, cell1), w1)"
  shows "parse_calls w1 = parse_calls w \<or>
         (truthy content \<and> \<not> is_function content \<and> parse_calls w1 = parse_calls w @ [content])"
  using m
  by (auto simp: useMemo_def object_is_def split: option.splits if_splits prod.splits
      dest!: initialBlocks_parse_calls)

lemma useEffect_frame:
  "useEffect (initialEdits_effect kind type rid e) dep prev w = (deps, w1) \<Longrightarrow>
   parse_calls w1 = parse_calls w \<and> entities w1 = entities w \<and> deps = Some dep"
  by (auto simp: useEffect_def initialEdits_effect_def object_is_def split: option.splits if_splits)

text \<open>One render, with all that the later properties need of it.\<close>

lemma render_step:
  assumes g: "getEntity kind type w = Inr (ent, wa)"
    and rid: "rid = nullish_coalesce (id_option opts) (useContext (context_of ent) stack)"
    and content: "content = fst (mapSelect st kind type rid (contentProp_of opts))"
    and blocksValue: "blocksValue = fst (mapSelect st kind type rid (blocksProp_of opts))"
  shows "\<exists>initBlocks cell w3 deps w5.
     useMemo (initialBlocks parse content) content (memo_cell hs) wa = ((initBlocks, cell), w3) \<and>
     useEffect (initialEdits_effect kind type rid (initialEdits opts)) rid (effect_deps hs) w3 = (deps, w5) \<and>
     useEntityBlockEditor parse st kind type opts hs stack w =
       Inr (((if blocksValue = JUndefined then initBlocks else blocksValue,
              setValue kind type rid (blocksProp_of opts),
              onChange (setValue kind type rid (blocksProp_of opts)) (setValue kind type rid (contentProp_of opts))),
             \<lparr>effect_deps = deps, memo_cell = cell\<rparr>), w5) \<and>
     getEntity kind type w5 = Inr (ent, w5)"
proof -
  obtain ib cell w3 where m: "useMemo (initialBlocks parse content) content (memo_cell hs) wa = ((ib, cell), w3)"
    by (metis prod.exhaust)
  obtain deps w5 where ef: "useEffect (initialEdits_effect kind type rid (initialEdits opts)) rid (effect_deps hs) w3 = (deps, w5)"
    by (metis prod.exhaust)
  have "entities w5 = entities wa" using useMemo_frame[OF m] useEffect_frame[OF ef] by simp
  with getEntity_again[OF g] have "getEntity kind type w5 = Inr (ent, w5)" by (rule getEntity_cong)
  with useEntityBlockEditor_eq[OF g rid content m blocksValue ef] m ef
  show ?thesis by simp
qed

text \<open>The memo is well formed when the component mounts, and every render keeps it so.\<close>

lemma memo_inv_initial: "memo_inv parse initial_hooks"
  by (simp add: memo_inv_def initial_hooks_def)

lemma memo_inv_render:
  assumes k: "kind_configured w kind" and inv: "memo_inv parse hs"
    and r: "useEntityBlockEditor parse st kind type opts hs stack w = Inr (res, w1)"
  shows "memo_inv parse (snd res)"
proof -
  from getEntity_configured[OF k] obtain ent wa where g: "getEntity kind type w = Inr (ent, wa)" by blast
  define rid where "rid = nullish_coalesce (id_option opts) (useContext (context_of ent) stack)"
  define content where "content = fst (mapSelect st kind type rid (contentProp_of opts))"
  from render_step[OF g rid_def content_def refl, of parse hs] obtain v cell w3 deps w5 where
    m: "useMemo (initialBlocks parse content) content (memo_cell hs) wa = ((v, cell), w3)"
    and r': "useEntityBlockEditor parse st kind type opts hs stack w =
       Inr (((if fst (mapSelect st kind type rid (blocksProp_of opts)) = JUndefined then v
              else fst (mapSelect st kind type rid (blocksProp_of opts)),
              setValue kind type rid (blocksProp_of opts),
              onChange (setValue kind type rid (blocksProp_of opts)) (setValue kind type rid (contentProp_of opts))),
             \<lparr>effect_deps = deps, memo_cell = cell\<rparr>), w5)"
    by blast
  have "cell = Some (content, v)" using m by (rule useMemo_key)
  moreover have "array_items v = Some (parsed_items parse content)" using m inv by (rule useMemo_items)
  moreover have "snd res = \<lparr>effect_deps = deps, memo_cell = cell\<rparr>" using r r' by auto
  ultimately show ?thesis by (simp add: memo_inv_def)
qed

text \<open>The calls of the effect over successive renders.\<close>

lemma remdups_adj_Cons_ex: "\<exists>ys. remdups_adj (x # xs) = x # ys"
  by (induction xs) auto

lemma useEffect_seed:
  assumes "useEffect (initialEdits_effect kind type rid e) rid prev w = (deps, w1)"
  shows "dispatched w1 = dispatched w @
           (if prev \<noteq> Some rid \<and> truthy e then [seed_call kind type e rid] else [])"
  using assms
  by (auto simp: useEffect_def initialEdits_effect_def object_is_def seed_call_def
      split: option.splits if_splits)

lemma renders_seed_calls:
  assumes "getEntity kind type w = Inr (ent, wa)"
    and "renders parse kind type ins hs w = Inr (hs1, w1)"
  shows "dispatched w1 = dispatched w @
     seed_calls kind type (effect_deps hs)
       (map (\<lambda>x. (nullish_coalesce (id_option (fst (snd x))) (useContext (context_of ent) (snd (snd x))),
                  initialEdits (fst (snd x)))) ins)"
  using assms
proof (induction ins arbitrary: hs w wa)
  case Nil
  then show ?case by simp
next
  case (Cons x xs)
  obtain st opts stack where x: "x = (st, opts, stack)" by (cases x)
  define rid where "rid = nullish_coalesce (id_option opts) (useContext (context_of ent) stack)"
  from render_step[OF Cons.prems(1) rid_def refl refl, where st = st and parse = parse and hs = hs] obtain v cell w3 deps w5 where
    m: "useMemo (initialBlocks parse (fst (mapSelect st kind type rid (contentProp_of opts))))
          (fst (mapSelect st kind type rid (contentProp_of opts))) (memo_cell hs) wa = ((v, cell), w3)"
    and ef: "useEffect (initialEdits_effect kind type rid (initialEdits opts)) rid (effect_deps hs) w3 = (deps, w5)"
    and r: "useEntityBlockEditor parse st kind type opts hs stack w =
       Inr (((if fst (mapSelect st kind type rid (blocksProp_of opts)) = JUndefined then v
              else fst (mapSelect st kind type rid (blocksProp_of opts)),
              setValue kind type rid (blocksProp_of opts),
              onChange (setValue kind type rid (blocksProp_of opts)) (setValue kind type rid (contentProp_of opts))),
             \<lparr>effect_deps = deps, memo_cell = cell\<rparr>), w5)"
    and g5: "getEntity kind type w5 = Inr (ent, w5)"
    by blast
  have d3: "dispatched w3 = dispatched w"
    using useMemo_frame[OF m] getEntity_frame[OF Cons.prems(1)] by simp
  have d5: "dispatched w5 = dispatched w @
      (if effect_deps hs \<noteq> Some rid \<and> truthy (initialEdits opts)
       then [seed_call kind type (initialEdits opts) rid] else [])"
    using useEffect_seed[OF ef] d3 by simp
  have deps: "deps = Some rid" using useEffect_frame[OF ef] by simp
  from Cons.prems(2) have rest: "renders parse kind type xs \<lparr>effect_deps = deps, memo_cell = cell\<rparr> w5 = Inr (hs1, w1)"
    by (simp add: x r)
  from Cons.IH[OF g5 rest] d5 show ?case
    by (simp add: deps x rid_def)
qed

text \<open>With the same truthy initial edits at every render: one call per run of equal ids.\<close>

lemma seed_calls_runs:
  assumes "truthy e"
  shows "seed_calls kind type prev (map (\<lambda>i. (i, e)) ids) =
     map (seed_call kind type e)
       (case prev of None \<Rightarrow> remdups_adj ids | Some d \<Rightarrow> tl (remdups_adj (d # ids)))"
proof (induction ids arbitrary: prev)
  case Nil
  then show ?case by (simp split: option.splits)
next
  case (Cons i ids)
  obtain ys where ys: "remdups_adj (i # ids) = i # ys"
    using remdups_adj_Cons_ex[of i ids] by blast
  from Cons[of "Some i"] have ih: "seed_calls kind type (Some i) (map (\<lambda>i. (i, e)) ids) = map (seed_call kind type e) ys"
    by (simp add: ys)
  show ?case using assms by (simp add: ih ys split: option.splits)
qed

lemma renders_configured:
  "kind_configured w kind \<Longrightarrow> \<exists>r. renders parse kind type ins hs w = Inr r"
proof (induction ins arbitrary: hs w)
  case Nil
  then show ?case by simp
next
  case (Cons x xs)
  from getEntity_configured[OF Cons.prems] obtain ent wa where g: "getEntity kind type w = Inr (ent, wa)" by blast
  from render_step[OF g refl refl refl, where st = "fst x" and opts = "fst (snd x)" and stack = "snd (snd x)"
      and parse = parse and hs = hs]
  obtain res w5 where r: "useEntityBlockEditor parse (fst x) kind type (fst (snd x)) hs (snd (snd x)) w = Inr (res, w5)"
    and g5: "getEntity kind type w5 = Inr (ent, w5)" by blast
  from g5 have "kind_configured w5 kind" by (rule getEntity_Inr_configured)
  from Cons.IH[OF this] r show ?case by simp
qed

text \<open>\<^verbatim>\<open>onChange\<close>: the two calls it dispatches, and what its function reads when called.\<close>

lemma onChange_dispatched:
  "dispatched (onChange (setValue kind type rid bp) (setValue kind type rid cp) doc u) =
     dispatched u @
       [\<lparr>edit_kind = kind, edit_type = type, edit_id = rid,
         edits = JObj (refs_allocated u) [(bp, doc)], undoIgnore = None\<rparr>,
        \<lparr>edit_kind = kind, edit_type = type, edit_id = rid,
         edits = JObj (Suc (Suc (refs_allocated u))) [(cp, JFun (Suc (refs_allocated u)) Serialize_blocks)],
         undoIgnore = None\<rparr>]"
  by (simp add: onChange_def setValue_eq alloc_def)

lemma call_function_blocks:
  "js_get rec ''blocks'' = doc \<Longrightarrow> call_function serialize Serialize_blocks (JObj r rec) = Inr (serialize doc)"
  by simp

text \<open>Unfolding a render on concrete inputs.\<close>

lemmas render_eval = useEntityBlockEditor_def useEntityProp_def useEntityId_def getEntity_def
  createContext_def useContext_def mapSelect_def js_get_def useMemo_def initialBlocks_def alloc_def
  useEffect_def initialEdits_effect_def object_is_def initial_hooks_def blocksProp_of_def
  contentProp_of_def Let_def

subsection \<open>The claims\<close>

text \<open>
  C9. The registry of pairs is append-only and populated idempotently. For a kind of
  the configuration, a reference to a pair returns an entry that the table holds from
  then on; no entry that was in the table is removed or replaced by the reference; a
  reference to a pair that already has an entry returns that entry and changes nothing;
  and after any further references, to any pairs, a reference to the same pair still
  yields the identical entry and leaves the table as it is.
\<close>

theorem registry_append_only:
  assumes "kind_configured w kind"
  shows "\<exists>e w1. getEntity kind type w = Inr (e, w1) \<and>
           entry w1 kind type = Some e \<and>
           (\<forall>k t x. entry w k t = Some x \<longrightarrow> entry w1 k t = Some x) \<and>
           (\<forall>x. entry w kind type = Some x \<longrightarrow> x = e \<and> w1 = w) \<and>
           (\<forall>rs. getEntity kind type (references rs w1) = Inr (e, references rs w1)) \<and>
           (\<forall>rs k t x. entry w1 k t = Some x \<longrightarrow> entry (references rs w1) k t = Some x)"
proof -
  from getEntity_configured[OF assms] obtain e w1 where g: "getEntity kind type w = Inr (e, w1)"
    by blast
  have here: "entry w1 kind type = Some e" using g by (rule getEntity_entry)
  have kept: "\<forall>k t x. entry w k t = Some x \<longrightarrow> entry w1 k t = Some x"
    using getEntity_preserves[OF g] by blast
  have noop: "\<forall>x. entry w kind type = Some x \<longrightarrow> x = e \<and> w1 = w"
    using g by (auto simp: getEntity_existing)
  have later: "\<forall>rs. getEntity kind type (references rs w1) = Inr (e, references rs w1)"
    using here by (simp add: getEntity_existing references_entry)
  have stays: "\<forall>rs k t x. entry w1 k t = Some x \<longrightarrow> entry (references rs w1) k t = Some x"
    by (simp add: references_entry)
  from g here kept noop later stays show ?thesis by blast
qed

theorem registry_append_only_witness:
  "kind_configured (initial_world [(''root'', ''site'')] [''postType'']) ''postType'' \<and>
   (\<exists>e w1. getEntity ''postType'' ''post'' (initial_world [(''root'', ''site'')] [''postType'']) = Inr (e, w1) \<and>
      entry w1 ''postType'' ''post'' = Some e \<and>
      getEntity ''postType'' ''post'' (references [(''root'', ''site''), (''postType'', ''page'')] w1) =
        Inr (e, references [(''root'', ''site''), (''postType'', ''page'')] w1))"
proof -
  have h: "kind_configured (initial_world [(''root'', ''site'')] [''postType'']) ''postType''"
    by (simp add: kind_configured_def initial_world_def defaultEntities_step_def kinds_step_def spread_def)
  from registry_append_only[OF h, of "''post''"] h show ?thesis by blast
qed

text \<open>
  C4, as stated: every pair without an entry in the configuration raises. It fails: the
  pair of the configured kind \<^verbatim>\<open>postType\<close> and the type \<^verbatim>\<open>post\<close> has no entry, and
  \<^verbatim>\<open>useEntityId\<close> returns for it (the entry is made on this first reference).
\<close>

theorem unregistered_pair_no_error:
  "\<not> registered (initial_world [(''root'', ''site'')] [''postType'']) ''postType'' ''post'' \<and>
   useEntityId ''postType'' ''post'' [] (initial_world [(''root'', ''site'')] [''postType'']) =
     Inr (JUndefined,
          \<lparr>entities = [(''root'', [(''site'', \<lparr>context_of = 0\<rparr>)]),
                       (''postType'', [(''post'', \<lparr>context_of = 1\<rparr>)])],
           contexts_created = 2, dispatched = [], parse_calls = [], refs_allocated = 0\<rparr>)"
  by (simp add: registered_def entry_def lookup2_def initial_world_def defaultEntities_step_def
      kinds_step_def spread_def useEntityId_def getEntity_def createContext_def useContext_def)

text \<open>
  C4, amended. The error is raised for the kind, not for the pair, and for names that
  are not inherited from \<^verbatim>\<open>Object.prototype\<close>. In a plain table: for every pair whose
  kind has no entry in the configuration and is not an inherited name,
  \<^verbatim>\<open>useEntityId\<close>, \<^verbatim>\<open>useEntityProp\<close> and \<^verbatim>\<open>useEntityBlockEditor\<close> end with the error
  \<^verbatim>\<open>Missing entity config for kind\<close>, which none of them catches; for every pair whose
  kind has an entry and whose type is not an inherited name, registered or not, each of
  them returns. (For an inherited kind such as \<^verbatim>\<open>constructor\<close> the code raises nothing,
  and for an inherited type it fails with a TypeError: neither is claimed here.)
\<close>

theorem unknown_kind_raises:
  assumes "plain_tables w"
  shows "(\<not> kind_configured w kind \<and> \<not> inherited_name kind \<longrightarrow>
      useEntityId kind type stack w = Inl (Error (''Missing entity config for kind: '' @ kind @ ''.'')) \<and>
      useEntityProp st kind type field i stack w =
        Inl (Error (''Missing entity config for kind: '' @ kind @ ''.'')) \<and>
      useEntityBlockEditor parse st kind type opts hs stack w =
        Inl (Error (''Missing entity config for kind: '' @ kind @ ''.''))) \<and>
   (kind_configured w kind \<and> \<not> inherited_name type \<longrightarrow>
      (\<exists>r. useEntityId kind type stack w = Inr r) \<and>
      (\<exists>r. useEntityProp st kind type field i stack w = Inr r) \<and>
      (\<exists>r. useEntityBlockEditor parse st kind type opts hs stack w = Inr r))"
proof (intro conjI impI)
  assume "kind_configured w kind \<and> \<not> inherited_name type"
  then have k: "kind_configured w kind" by simp
  from getEntity_configured[OF k] obtain e w1 where g: "getEntity kind type w = Inr (e, w1)" by blast
  show "\<exists>r. useEntityId kind type stack w = Inr r" by (simp add: useEntityId_eq[OF g])
  show "\<exists>r. useEntityProp st kind type field i stack w = Inr r" by (simp add: useEntityProp_eq[OF g])
  show "\<exists>r. useEntityBlockEditor parse st kind type opts hs stack w = Inr r"
    using k by (rule useEntityBlockEditor_configured)
qed (simp_all add: useEntityId_missing useEntityProp_missing useEntityBlockEditor_missing)

theorem unknown_kind_raises_witness:
  "plain_tables (initial_world [(''root'', ''site'')] [''postType'']) \<and>
   \<not> kind_configured (initial_world [(''root'', ''site'')] [''postType'']) ''taxonomy'' \<and>
   \<not> inherited_name ''taxonomy'' \<and>
   useEntityBlockEditor (\<lambda>c. [])
       \<lparr>getEntityRecord = (\<lambda>k t i. None), getEditedEntityRecord = (\<lambda>k t i. None)\<rparr>
       ''taxonomy'' ''category''
       \<lparr>initialEdits = JUndefined, blocksProp = None, contentProp = None, id_option = JUndefined\<rparr>
       initial_hooks [] (initial_world [(''root'', ''site'')] [''postType'']) =
     Inl (Error ''Missing entity config for kind: taxonomy.'') \<and>
   kind_configured (initial_world [(''root'', ''site'')] [''postType'']) ''postType'' \<and>
   \<not> inherited_name ''post'' \<and>
   (\<exists>r. useEntityBlockEditor (\<lambda>c. [])
       \<lparr>getEntityRecord = (\<lambda>k t i. None), getEditedEntityRecord = (\<lambda>k t i. None)\<rparr>
       ''postType'' ''post''
       \<lparr>initialEdits = JUndefined, blocksProp = None, contentProp = None, id_option = JUndefined\<rparr>
       initial_hooks [] (initial_world [(''root'', ''site'')] [''postType'']) = Inr r)"
proof -
  let ?w = "initial_world [(''root'', ''site'')] [''postType'']"
  have p: "plain_tables ?w"
    by (simp add: plain_tables_def inherited_name_def object_prototype_names_def initial_world_def
        defaultEntities_step_def kinds_step_def spread_def)
  have a: "\<not> kind_configured ?w ''taxonomy''"
    by (simp add: kind_configured_def initial_world_def defaultEntities_step_def kinds_step_def spread_def)
  have a': "\<not> inherited_name ''taxonomy''"
    by (simp add: inherited_name_def object_prototype_names_def)
  have b: "kind_configured ?w ''postType''"
    by (simp add: kind_configured_def initial_world_def defaultEntities_step_def kinds_step_def spread_def)
  have b': "\<not> inherited_name ''post''"
    by (simp add: inherited_name_def object_prototype_names_def)
  from p a a' b b'
    unknown_kind_raises[OF p, of "''taxonomy''" "''category''" "[]", where hs = initial_hooks]
    unknown_kind_raises[OF p, of "''postType''" "''post''" "[]", where hs = initial_hooks]
  show ?thesis by simp
qed

text \<open>
  C6. For a pair of a configured kind, under a chain of nested providers,
  \<^verbatim>\<open>useEntityId\<close> yields the id of the nearest (innermost) provider of that pair, and
  undefined when the chain has no provider of the pair. \<^verbatim>\<open>useEntityProp\<close> and
  \<^verbatim>\<open>useEntityBlockEditor\<close> work with the override when one is given (a value other
  than undefined and null) and with that scope id otherwise: it is the id of the
  record they read, of the setter they return and of the dependency of the effect.
  The table is taken to be well formed (\<open>reg_inv\<close>): the initial table is, and every
  reference keeps it so (\<open>reg_inv_initial_world\<close>, \<open>getEntity_reg_inv\<close>).
\<close>

theorem effective_id_resolution:
  assumes inv: "reg_inv w" and r: "render_providers ps [] w = Inr (stack, w1)"
    and k: "kind_configured w kind"
    and rid: "rid = (if i = JUndefined \<or> i = JNull then nearest_scope ps kind type else i)"
    and rid': "rid' = (if id_option opts = JUndefined \<or> id_option opts = JNull
                       then nearest_scope ps kind type else id_option opts)"
  shows "(\<exists>w2. useEntityId kind type stack w1 = Inr (nearest_scope ps kind type, w2)) \<and>
         (\<exists>w2. useEntityProp st kind type field i stack w1 =
            Inr ((fst (mapSelect st kind type rid field), setValue kind type rid field,
                  snd (mapSelect st kind type rid field)), w2)) \<and>
         (\<exists>doc onCh hs1 w2. useEntityBlockEditor parse st kind type opts hs stack w1 =
            Inr (((doc, setValue kind type rid' (blocksProp_of opts), onCh), hs1), w2) \<and>
            effect_deps hs1 = Some rid') \<and>
         ((\<forall>p \<in> set ps. fst p \<noteq> kind \<or> fst (snd p) \<noteq> type) \<longrightarrow> nearest_scope ps kind type = JUndefined)"
proof -
  have p0: "provided w [] []" by (simp add: provided_def)
  from render_providers_provided[OF r p0 inv]
  have p1: "provided w1 ps stack" and i1: "reg_inv w1" and k1: "kind_configured w1 kind"
    using k by simp_all
  from getEntity_configured[OF k1] obtain e w2 where g: "getEntity kind type w1 = Inr (e, w2)" by blast
  have p2: "provided w2 ps stack" using p1 getEntity_preserves[OF g] by (rule provided_mono)
  have i2: "reg_inv w2" using g i1 by (rule getEntity_reg_inv)
  have near: "useContext (context_of e) stack = nearest_scope ps kind type"
    using i2 getEntity_entry[OF g] p2 by (rule provided_nearest)
  have a: "useEntityId kind type stack w1 = Inr (nearest_scope ps kind type, w2)"
    by (simp add: useEntityId_eq[OF g] near)
  have b: "useEntityProp st kind type field i stack w1 =
            Inr ((fst (mapSelect st kind type rid field), setValue kind type rid field,
                  snd (mapSelect st kind type rid field)), w2)"
    by (simp add: useEntityProp_eq[OF g] near rid nullish_coalesce_if)
  have r': "rid' = nullish_coalesce (id_option opts) (useContext (context_of e) stack)"
    by (simp add: near rid' nullish_coalesce_if)
  define content where "content = fst (mapSelect st kind type rid' (contentProp_of opts))"
  obtain ib cell w3 where m: "useMemo (initialBlocks parse content) content (memo_cell hs) w2 = ((ib, cell), w3)"
    by (metis prod.exhaust)
  obtain deps w5 where ef: "useEffect (initialEdits_effect kind type rid' (initialEdits opts)) rid' (effect_deps hs) w3 = (deps, w5)"
    by (metis prod.exhaust)
  have d: "deps = Some rid'"
    using ef by (auto simp: useEffect_def object_is_def split: option.splits if_splits)
  have c: "\<exists>doc onCh hs1 w2. useEntityBlockEditor parse st kind type opts hs stack w1 =
            Inr (((doc, setValue kind type rid' (blocksProp_of opts), onCh), hs1), w2) \<and>
            effect_deps hs1 = Some rid'"
    using useEntityBlockEditor_eq[OF g r' content_def m refl ef] d by simp
  have n: "(\<forall>p \<in> set ps. fst p \<noteq> kind \<or> fst (snd p) \<noteq> type) \<longrightarrow> nearest_scope ps kind type = JUndefined"
  proof
    assume "\<forall>p \<in> set ps. fst p \<noteq> kind \<or> fst (snd p) \<noteq> type"
    then have "find (\<lambda>p. fst p = kind \<and> fst (snd p) = type) (rev ps) = None"
      by (auto simp: find_None_iff)
    then show "nearest_scope ps kind type = JUndefined" by (simp add: nearest_scope_def)
  qed
  from a b c n show ?thesis by blast
qed

theorem effective_id_resolution_witness:
  "reg_inv (initial_world [(''root'', ''site''), (''root'', ''media'')] [''postType'']) \<and>
   kind_configured (initial_world [(''root'', ''site''), (''root'', ''media'')] [''postType'']) ''postType'' \<and>
   render_providers
       [(''postType'', ''post'', JNum 42), (''postType'', ''page'', JNum 7), (''postType'', ''post'', JNum 5)]
       [] (initial_world [(''root'', ''site''), (''root'', ''media'')] [''postType'']) =
     Inr ([(2, JNum 5), (3, JNum 7), (2, JNum 42)],
          \<lparr>entities = [(''root'', [(''site'', \<lparr>context_of = 0\<rparr>), (''media'', \<lparr>context_of = 1\<rparr>)]),
                       (''postType'', [(''post'', \<lparr>context_of = 2\<rparr>), (''page'', \<lparr>context_of = 3\<rparr>)])],
           contexts_created = 4, dispatched = [], parse_calls = [], refs_allocated = 0\<rparr>) \<and>
   (\<exists>w2. useEntityId ''postType'' ''post'' [(2, JNum 5), (3, JNum 7), (2, JNum 42)]
          \<lparr>entities = [(''root'', [(''site'', \<lparr>context_of = 0\<rparr>), (''media'', \<lparr>context_of = 1\<rparr>)]),
                       (''postType'', [(''post'', \<lparr>context_of = 2\<rparr>), (''page'', \<lparr>context_of = 3\<rparr>)])],
           contexts_created = 4, dispatched = [], parse_calls = [], refs_allocated = 0\<rparr> =
        Inr (JNum 5, w2)) \<and>
   (\<exists>w2. useEntityProp
          \<lparr>getEntityRecord = (\<lambda>k t i. if i = JNum 9 then Some [(''title'', JStr ''A'')] else None),
           getEditedEntityRecord = (\<lambda>k t i. if i = JNum 9 then Some [(''title'', JStr ''B'')] else None)\<rparr>
          ''postType'' ''post'' ''title'' (JNum 9) [(2, JNum 5), (3, JNum 7), (2, JNum 42)]
          \<lparr>entities = [(''root'', [(''site'', \<lparr>context_of = 0\<rparr>), (''media'', \<lparr>context_of = 1\<rparr>)]),
                       (''postType'', [(''post'', \<lparr>context_of = 2\<rparr>), (''page'', \<lparr>context_of = 3\<rparr>)])],
           contexts_created = 4, dispatched = [], parse_calls = [], refs_allocated = 0\<rparr> =
        Inr ((JStr ''B'', setValue ''postType'' ''post'' (JNum 9) ''title'', JStr ''A''), w2))"
proof -
  let ?w = "initial_world [(''root'', ''site''), (''root'', ''media'')] [''postType'']"
  let ?ps = "[(''postType'', ''post'', JNum 42), (''postType'', ''page'', JNum 7), (''postType'', ''post'', JNum 5)]"
  let ?st = "\<lparr>getEntityRecord = (\<lambda>k t i. if i = JNum 9 then Some [(''title'', JStr ''A'')] else None),
           getEditedEntityRecord = (\<lambda>k t i. if i = JNum 9 then Some [(''title'', JStr ''B'')] else None)\<rparr>"
  have a: "reg_inv ?w" by (rule reg_inv_initial_world)
  have b: "kind_configured ?w ''postType''" by (simp add: world_eval)
  have c: "render_providers ?ps [] ?w =
     Inr ([(2, JNum 5), (3, JNum 7), (2, JNum 42)],
          \<lparr>entities = [(''root'', [(''site'', \<lparr>context_of = 0\<rparr>), (''media'', \<lparr>context_of = 1\<rparr>)]),
                       (''postType'', [(''post'', \<lparr>context_of = 2\<rparr>), (''page'', \<lparr>context_of = 3\<rparr>)])],
           contexts_created = 4, dispatched = [], parse_calls = [], refs_allocated = 0\<rparr>)"
    by (simp add: world_eval EntityProvider_def getEntity_def createContext_def)
  have n: "nearest_scope ?ps ''postType'' ''post'' = JNum 5" by (simp add: nearest_scope_def)
  have r: "JNum 9 = (if JNum 9 = JUndefined \<or> JNum 9 = JNull then nearest_scope ?ps ''postType'' ''post'' else JNum 9)"
    by simp
  have ms: "mapSelect ?st ''postType'' ''post'' (JNum 9) ''title'' = (JStr ''B'', JStr ''A'')"
    by (simp add: mapSelect_def js_get_def)
  note t = effective_id_resolution[OF a c b r refl, where st = ?st and field = "''title''"]
  from t[THEN conjunct1] have t1: "\<exists>w2. useEntityId ''postType'' ''post'' [(2, JNum 5), (3, JNum 7), (2, JNum 42)]
          \<lparr>entities = [(''root'', [(''site'', \<lparr>context_of = 0\<rparr>), (''media'', \<lparr>context_of = 1\<rparr>)]),
                       (''postType'', [(''post'', \<lparr>context_of = 2\<rparr>), (''page'', \<lparr>context_of = 3\<rparr>)])],
           contexts_created = 4, dispatched = [], parse_calls = [], refs_allocated = 0\<rparr> =
        Inr (JNum 5, w2)"
    unfolding n .
  from t[THEN conjunct2, THEN conjunct1] have t2: "\<exists>w2. useEntityProp ?st
          ''postType'' ''post'' ''title'' (JNum 9) [(2, JNum 5), (3, JNum 7), (2, JNum 42)]
          \<lparr>entities = [(''root'', [(''site'', \<lparr>context_of = 0\<rparr>), (''media'', \<lparr>context_of = 1\<rparr>)]),
                       (''postType'', [(''post'', \<lparr>context_of = 2\<rparr>), (''page'', \<lparr>context_of = 3\<rparr>)])],
           contexts_created = 4, dispatched = [], parse_calls = [], refs_allocated = 0\<rparr> =
        Inr ((JStr ''B'', setValue ''postType'' ''post'' (JNum 9) ''title'', JStr ''A''), w2)"
    unfolding ms fst_conv snd_conv .
  from a b c t1 t2 show ?thesis by (intro conjI)
qed

text \<open>
  C2. For a pair of a configured kind, a field name and the effective id: when the
  store has both the persisted record and its edited counterpart, \<^verbatim>\<open>useEntityProp\<close>
  returns the edited record's value of the field first and the persisted record's value
  last; when either is absent, both values are undefined.
\<close>

theorem field_values:
  assumes k: "kind_configured w kind"
  shows "\<exists>v setter fv w1.
           useEntityProp st kind type field i stack w = Inr ((v, setter, fv), w1) \<and>
           (\<forall>ent edited.
              getEntityRecord st kind type (effective_id w kind type i stack) = Some ent \<and>
              getEditedEntityRecord st kind type (effective_id w kind type i stack) = Some edited
              \<longrightarrow> v = js_get edited field \<and> fv = js_get ent field) \<and>
           (getEntityRecord st kind type (effective_id w kind type i stack) = None \<or>
            getEditedEntityRecord st kind type (effective_id w kind type i stack) = None
              \<longrightarrow> v = JUndefined \<and> fv = JUndefined)"
proof -
  from getEntity_configured[OF k] obtain e w1 where g: "getEntity kind type w = Inr (e, w1)" by blast
  let ?rid = "effective_id w kind type i stack"
  have rid: "nullish_coalesce i (useContext (context_of e) stack) = ?rid"
    using g by (simp add: effective_id_eq)
  have u: "useEntityProp st kind type field i stack w =
     Inr ((fst (mapSelect st kind type ?rid field), setValue kind type ?rid field,
           snd (mapSelect st kind type ?rid field)), w1)"
    by (simp add: useEntityProp_eq[OF g] rid)
  have both: "\<forall>ent edited.
      getEntityRecord st kind type ?rid = Some ent \<and> getEditedEntityRecord st kind type ?rid = Some edited
      \<longrightarrow> fst (mapSelect st kind type ?rid field) = js_get edited field \<and>
          snd (mapSelect st kind type ?rid field) = js_get ent field"
    by (simp add: mapSelect_def)
  have none: "getEntityRecord st kind type ?rid = None \<or> getEditedEntityRecord st kind type ?rid = None
      \<longrightarrow> fst (mapSelect st kind type ?rid field) = JUndefined \<and>
          snd (mapSelect st kind type ?rid field) = JUndefined"
    by (auto simp: mapSelect_def split: option.splits)
  from both none show ?thesis unfolding u by simp
qed

theorem field_values_witness:
  "kind_configured (initial_world [(''root'', ''site''), (''root'', ''media'')] [''postType'']) ''postType'' \<and>
   (\<exists>setter w1. useEntityProp
          \<lparr>getEntityRecord = (\<lambda>k t i. if i = JNum 42 then Some [(''title'', JStr ''A'')] else None),
           getEditedEntityRecord = (\<lambda>k t i. if i = JNum 42 then Some [(''title'', JStr ''B'')] else None)\<rparr>
          ''postType'' ''post'' ''title'' JUndefined [(2, JNum 42)]
          (initial_world [(''root'', ''site''), (''root'', ''media'')] [''postType'']) =
        Inr ((JStr ''B'', setter, JStr ''A''), w1)) \<and>
   (\<exists>setter w1. useEntityProp
          \<lparr>getEntityRecord = (\<lambda>k t i. if i = JNum 42 then Some [(''title'', JStr ''A'')] else None),
           getEditedEntityRecord = (\<lambda>k t i. if i = JNum 42 then Some [(''title'', JStr ''B'')] else None)\<rparr>
          ''postType'' ''post'' ''title'' (JNum 7) [(2, JNum 42)]
          (initial_world [(''root'', ''site''), (''root'', ''media'')] [''postType'']) =
        Inr ((JUndefined, setter, JUndefined), w1))"
proof -
  let ?w = "initial_world [(''root'', ''site''), (''root'', ''media'')] [''postType'']"
  have h: "kind_configured ?w ''postType''" by (simp add: world_eval)
  have e: "effective_id ?w ''postType'' ''post'' JUndefined [(2, JNum 42)] = JNum 42"
    by (simp add: world_eval id_eval)
  have e7: "effective_id ?w ''postType'' ''post'' (JNum 7) [(2, JNum 42)] = JNum 7"
    by (simp add: world_eval id_eval)
  from field_values[OF h, where st =
         "\<lparr>getEntityRecord = (\<lambda>k t i. if i = JNum 42 then Some [(''title'', JStr ''A'')] else None),
           getEditedEntityRecord = (\<lambda>k t i. if i = JNum 42 then Some [(''title'', JStr ''B'')] else None)\<rparr>"
         and type = "''post''" and field = "''title''" and i = JUndefined and stack = "[(2, JNum 42)]"]
       field_values[OF h, where st =
         "\<lparr>getEntityRecord = (\<lambda>k t i. if i = JNum 42 then Some [(''title'', JStr ''A'')] else None),
           getEditedEntityRecord = (\<lambda>k t i. if i = JNum 42 then Some [(''title'', JStr ''B'')] else None)\<rparr>"
         and type = "''post''" and field = "''title''" and i = "JNum 7" and stack = "[(2, JNum 42)]"]
  show ?thesis using h by (auto simp: e e7 js_get_def)
qed

text \<open>
  C7. For every document, \<^verbatim>\<open>onInput\<close> as returned by \<^verbatim>\<open>useEntityBlockEditor\<close> adds
  exactly one call of \<^verbatim>\<open>editEntityRecord\<close> to those the store received, for the
  effective id, whose edits object has the structured field as its only property,
  mapped to the document; the serialized field is not among its properties, and
  nothing else of the world changes but the counter of allocated objects.
\<close>

theorem transient_change_frame:
  assumes k: "kind_configured w kind"
  shows "\<exists>doc0 onInput onCh hs1 w1.
           useEntityBlockEditor parse st kind type opts hs stack w = Inr (((doc0, onInput, onCh), hs1), w1) \<and>
           (\<forall>doc u. onInput doc u =
              u\<lparr>refs_allocated := Suc (refs_allocated u),
                dispatched := dispatched u @
                  [\<lparr>edit_kind = kind, edit_type = type,
                    edit_id = effective_id w kind type (id_option opts) stack,
                    edits = JObj (refs_allocated u) [(blocksProp_of opts, doc)],
                    undoIgnore = None\<rparr>]\<rparr>) \<and>
           (\<forall>doc u. length (dispatched (onInput doc u)) = Suc (length (dispatched u)) \<and>
              fields_of (edits (last (dispatched (onInput doc u)))) = [blocksProp_of opts] \<and>
              (contentProp_of opts \<noteq> blocksProp_of opts \<longrightarrow>
                 contentProp_of opts \<notin> set (fields_of (edits (last (dispatched (onInput doc u)))))))"
proof -
  from getEntity_configured[OF k] obtain e w1 where g: "getEntity kind type w = Inr (e, w1)" by blast
  define rid where "rid = nullish_coalesce (id_option opts) (useContext (context_of e) stack)"
  have rid': "effective_id w kind type (id_option opts) stack = rid"
    using g by (simp add: effective_id_eq rid_def)
  define content where "content = fst (mapSelect st kind type rid (contentProp_of opts))"
  obtain ib cell w3 where m: "useMemo (initialBlocks parse content) content (memo_cell hs) w1 = ((ib, cell), w3)"
    by (metis prod.exhaust)
  obtain deps w5 where ef: "useEffect (initialEdits_effect kind type rid (initialEdits opts)) rid (effect_deps hs) w3 = (deps, w5)"
    by (metis prod.exhaust)
  note r = useEntityBlockEditor_eq[OF g rid_def content_def m refl ef]
  have a: "\<forall>doc u. setValue kind type rid (blocksProp_of opts) doc u =
              u\<lparr>refs_allocated := Suc (refs_allocated u),
                dispatched := dispatched u @
                  [\<lparr>edit_kind = kind, edit_type = type,
                    edit_id = effective_id w kind type (id_option opts) stack,
                    edits = JObj (refs_allocated u) [(blocksProp_of opts, doc)],
                    undoIgnore = None\<rparr>]\<rparr>"
    by (simp add: setValue_eq rid')
  have b: "\<forall>doc u. length (dispatched (setValue kind type rid (blocksProp_of opts) doc u)) = Suc (length (dispatched u)) \<and>
              fields_of (edits (last (dispatched (setValue kind type rid (blocksProp_of opts) doc u)))) = [blocksProp_of opts] \<and>
              (contentProp_of opts \<noteq> blocksProp_of opts \<longrightarrow>
                 contentProp_of opts \<notin> set (fields_of (edits (last (dispatched (setValue kind type rid (blocksProp_of opts) doc u))))))"
    by (simp add: setValue_eq)
  from a b show ?thesis unfolding r by simp
qed

theorem transient_change_frame_witness:
  "kind_configured (initial_world [(''root'', ''site''), (''root'', ''media'')] [''postType'']) ''postType'' \<and>
   (\<exists>doc0 onInput onCh hs1 w1.
      useEntityBlockEditor (\<lambda>c. [])
          \<lparr>getEntityRecord = (\<lambda>k t i. None), getEditedEntityRecord = (\<lambda>k t i. None)\<rparr>
          ''postType'' ''post''
          \<lparr>initialEdits = JUndefined, blocksProp = None, contentProp = None, id_option = JUndefined\<rparr>
          initial_hooks [(2, JNum 42)] (initial_world [(''root'', ''site''), (''root'', ''media'')] [''postType'']) =
        Inr (((doc0, onInput, onCh), hs1), w1) \<and>
      dispatched (onInput (JArr 7 [JObj 8 [(''name'', JStr ''core/paragraph'')]]) w1) =
        dispatched w1 @
          [\<lparr>edit_kind = ''postType'', edit_type = ''post'', edit_id = JNum 42,
            edits = JObj (refs_allocated w1) [(''blocks'', JArr 7 [JObj 8 [(''name'', JStr ''core/paragraph'')]])],
            undoIgnore = None\<rparr>])"
proof -
  let ?w = "initial_world [(''root'', ''site''), (''root'', ''media'')] [''postType'']"
  have h: "kind_configured ?w ''postType''" by (simp add: world_eval)
  have e: "effective_id ?w ''postType'' ''post'' JUndefined [(2, JNum 42)] = JNum 42"
    by (simp add: world_eval id_eval)
  from transient_change_frame[OF h, where parse = "\<lambda>c. []"
         and st = "\<lparr>getEntityRecord = (\<lambda>k t i. None), getEditedEntityRecord = (\<lambda>k t i. None)\<rparr>"
         and type = "''post''"
         and opts = "\<lparr>initialEdits = JUndefined, blocksProp = None, contentProp = None, id_option = JUndefined\<rparr>"
         and hs = initial_hooks and stack = "[(2, JNum 42)]"]
  obtain doc0 onInput onCh hs1 w1 where
    r: "useEntityBlockEditor (\<lambda>c. [])
          \<lparr>getEntityRecord = (\<lambda>k t i. None), getEditedEntityRecord = (\<lambda>k t i. None)\<rparr>
          ''postType'' ''post''
          \<lparr>initialEdits = JUndefined, blocksProp = None, contentProp = None, id_option = JUndefined\<rparr>
          initial_hooks [(2, JNum 42)] ?w = Inr (((doc0, onInput, onCh), hs1), w1)"
    and i: "\<And>doc u. onInput doc u =
              u\<lparr>refs_allocated := Suc (refs_allocated u),
                dispatched := dispatched u @
                  [\<lparr>edit_kind = ''postType'', edit_type = ''post'',
                    edit_id = JNum 42,
                    edits = JObj (refs_allocated u) [(''blocks'', doc)],
                    undoIgnore = None\<rparr>]\<rparr>"
    by (auto simp: e blocksProp_of_def)
  show ?thesis using h r by (simp add: i)
qed

text \<open>
  C10. When the effective id is undefined, the setter returned by \<^verbatim>\<open>useEntityProp\<close>
  still dispatches its edit, and the first render of \<^verbatim>\<open>useEntityBlockEditor\<close> with
  initial edits still dispatches them with \<^verbatim>\<open>undoIgnore\<close>, both with undefined as
  the id.
\<close>

theorem undefined_id_still_dispatches:
  assumes k: "kind_configured w kind"
    and u: "effective_id w kind type i stack = JUndefined"
    and o: "id_option opts = i" and t: "truthy (initialEdits opts)"
  shows "(\<exists>v setter fv w1.
            useEntityProp st kind type field i stack w = Inr ((v, setter, fv), w1) \<and>
            (\<forall>nv u. dispatched (setter nv u) = dispatched u @
                [\<lparr>edit_kind = kind, edit_type = type, edit_id = JUndefined,
                  edits = JObj (refs_allocated u) [(field, nv)], undoIgnore = None\<rparr>])) \<and>
         (\<exists>res w1.
            useEntityBlockEditor parse st kind type opts initial_hooks stack w = Inr (res, w1) \<and>
            dispatched w1 = dispatched w @
                [\<lparr>edit_kind = kind, edit_type = type, edit_id = JUndefined,
                  edits = initialEdits opts, undoIgnore = Some True\<rparr>])"
proof -
  from getEntity_configured[OF k] obtain e w1 where g: "getEntity kind type w = Inr (e, w1)" by blast
  have rid: "nullish_coalesce i (useContext (context_of e) stack) = JUndefined"
    using g u by (simp add: effective_id_eq)
  have a: "useEntityProp st kind type field i stack w =
     Inr ((fst (mapSelect st kind type JUndefined field), setValue kind type JUndefined field,
           snd (mapSelect st kind type JUndefined field)), w1)"
    by (simp add: useEntityProp_eq[OF g] rid)
  have a': "\<forall>nv u. dispatched (setValue kind type JUndefined field nv u) = dispatched u @
                [\<lparr>edit_kind = kind, edit_type = type, edit_id = JUndefined,
                  edits = JObj (refs_allocated u) [(field, nv)], undoIgnore = None\<rparr>]"
    by (simp add: setValue_eq)
  define content where "content = fst (mapSelect st kind type JUndefined (contentProp_of opts))"
  obtain ib cell w3 where m: "useMemo (initialBlocks parse content) content (memo_cell initial_hooks) w1 = ((ib, cell), w3)"
    by (metis prod.exhaust)
  have d3: "dispatched w3 = dispatched w" using useMemo_frame[OF m] getEntity_frame[OF g] by simp
  have ef: "useEffect (initialEdits_effect kind type JUndefined (initialEdits opts)) JUndefined (effect_deps initial_hooks) w3
      = (Some JUndefined, initialEdits_effect kind type JUndefined (initialEdits opts) w3)"
    by (simp add: initial_hooks_def useEffect_first)
  have rid2: "JUndefined = nullish_coalesce (id_option opts) (useContext (context_of e) stack)"
    using rid o by simp
  note r = useEntityBlockEditor_eq[OF g rid2 content_def m refl ef]
  have "dispatched (initialEdits_effect kind type JUndefined (initialEdits opts) w3) = dispatched w @
                [\<lparr>edit_kind = kind, edit_type = type, edit_id = JUndefined,
                  edits = initialEdits opts, undoIgnore = Some True\<rparr>]"
    using t by (simp add: initialEdits_effect_def d3)
  with a' show ?thesis unfolding r a by simp
qed

theorem undefined_id_still_dispatches_witness:
  "kind_configured (initial_world [(''root'', ''site''), (''root'', ''media'')] [''postType'']) ''postType'' \<and>
   effective_id (initial_world [(''root'', ''site''), (''root'', ''media'')] [''postType'']) ''postType'' ''post'' JUndefined [] = JUndefined \<and>
   truthy (JObj 3 [(''title'', JStr ''Draft'')]) \<and>
   (\<exists>res w1.
      useEntityBlockEditor (\<lambda>c. [])
          \<lparr>getEntityRecord = (\<lambda>k t i. None), getEditedEntityRecord = (\<lambda>k t i. None)\<rparr>
          ''postType'' ''post''
          \<lparr>initialEdits = JObj 3 [(''title'', JStr ''Draft'')], blocksProp = None, contentProp = None,
            id_option = JUndefined\<rparr>
          initial_hooks [] (initial_world [(''root'', ''site''), (''root'', ''media'')] [''postType'']) = Inr (res, w1) \<and>
      dispatched w1 =
          [\<lparr>edit_kind = ''postType'', edit_type = ''post'', edit_id = JUndefined,
            edits = JObj 3 [(''title'', JStr ''Draft'')], undoIgnore = Some True\<rparr>])"
proof -
  let ?w = "initial_world [(''root'', ''site''), (''root'', ''media'')] [''postType'']"
  have h: "kind_configured ?w ''postType''" by (simp add: world_eval)
  have e: "effective_id ?w ''postType'' ''post'' JUndefined [] = JUndefined"
    by (simp add: world_eval id_eval)
  have d: "dispatched ?w = []" by (simp add: initial_world_def split: prod.splits)
  from undefined_id_still_dispatches[OF h e, where opts =
         "\<lparr>initialEdits = JObj 3 [(''title'', JStr ''Draft'')], blocksProp = None, contentProp = None,
            id_option = JUndefined\<rparr>"
         and st = "\<lparr>getEntityRecord = (\<lambda>k t i. None), getEditedEntityRecord = (\<lambda>k t i. None)\<rparr>"
         and field = "''title''" and parse = "\<lambda>c. []"]
  show ?thesis using h e by (simp add: d)
qed

text \<open>
  C3, as stated: the working document is the structured value when that value is present
  and a sequence of document nodes, and otherwise the parse of the serialized value. It
  fails: with the structured field edited to null and the serialized field holding text,
  the hook returns null, which is no sequence, where the statement gives the parsed text.
\<close>

theorem null_structured_value_returned:
  "document_of (useEntityBlockEditor (\<lambda>c. [JObj 5 [(''name'', JStr ''core/paragraph'')]])
       \<lparr>getEntityRecord = (\<lambda>k t i. if i = JNum 1 then Some [(''content'', JStr ''<p>a</p>'')] else None),
        getEditedEntityRecord = (\<lambda>k t i. if i = JNum 1 then Some [(''content'', JStr ''<p>a</p>''), (''blocks'', JNull)] else None)\<rparr>
       ''postType'' ''post''
       \<lparr>initialEdits = JUndefined, blocksProp = None, contentProp = None, id_option = JNum 1\<rparr>
       initial_hooks [] (initial_world [(''root'', ''site''), (''root'', ''media'')] [''postType''])) = Some JNull \<and>
   array_items JNull = None \<and>
   spec_document_items (\<lambda>c. [JObj 5 [(''name'', JStr ''core/paragraph'')]]) JNull (JStr ''<p>a</p>'') =
     [JObj 5 [(''name'', JStr ''core/paragraph'')]]"
  by (simp add: document_of_def world_eval render_eval spec_document_items_def)

text \<open>
  C3, amended. The working document is the structured field's current edited value
  whenever that value is not undefined, whatever its shape; when it is undefined, the
  document is an array of the items parsed from the serialized field's current edited
  value, and an empty array when that value is falsy (absent, or the empty text) or a
  function. In the latter case the parser is not called. The memo of the instance
  stays well formed, so this holds at every render of an instance.
\<close>

theorem working_document:
  assumes k: "kind_configured w kind" and inv: "memo_inv parse hs"
    and bv: "blocksValue = fst (mapSelect st kind type (effective_id w kind type (id_option opts) stack) (blocksProp_of opts))"
    and c: "content = fst (mapSelect st kind type (effective_id w kind type (id_option opts) stack) (contentProp_of opts))"
  shows "\<exists>doc onInput onCh hs1 w1.
           useEntityBlockEditor parse st kind type opts hs stack w = Inr (((doc, onInput, onCh), hs1), w1) \<and>
           (blocksValue \<noteq> JUndefined \<longrightarrow> doc = blocksValue) \<and>
           (blocksValue = JUndefined \<longrightarrow>
              array_items doc = Some (if truthy content \<and> \<not> is_function content then parse content else [])) \<and>
           (\<not> truthy content \<or> is_function content \<longrightarrow> parse_calls w1 = parse_calls w) \<and>
           memo_inv parse hs1"
proof -
  from getEntity_configured[OF k] obtain ent wa where g: "getEntity kind type w = Inr (ent, wa)" by blast
  have rid: "effective_id w kind type (id_option opts) stack =
      nullish_coalesce (id_option opts) (useContext (context_of ent) stack)"
    using g by (rule effective_id_eq)
  from render_step[OF g rid c bv, of parse hs] obtain ib cell w3 deps w5 where
    m: "useMemo (initialBlocks parse content) content (memo_cell hs) wa = ((ib, cell), w3)"
    and ef: "useEffect (initialEdits_effect kind type (effective_id w kind type (id_option opts) stack) (initialEdits opts))
               (effective_id w kind type (id_option opts) stack) (effect_deps hs) w3 = (deps, w5)"
    and r: "useEntityBlockEditor parse st kind type opts hs stack w =
       Inr (((if blocksValue = JUndefined then ib else blocksValue,
              setValue kind type (effective_id w kind type (id_option opts) stack) (blocksProp_of opts),
              onChange (setValue kind type (effective_id w kind type (id_option opts) stack) (blocksProp_of opts))
                       (setValue kind type (effective_id w kind type (id_option opts) stack) (contentProp_of opts))),
             \<lparr>effect_deps = deps, memo_cell = cell\<rparr>), w5)"
    by blast
  have items: "array_items ib = Some (parsed_items parse content)" using m inv by (rule useMemo_items)
  have cell: "cell = Some (content, ib)" using m by (rule useMemo_key)
  have pc: "\<not> truthy content \<or> is_function content \<longrightarrow> parse_calls w5 = parse_calls w"
    using useMemo_parse_calls[OF m] useEffect_frame[OF ef] getEntity_frame[OF g] by auto
  have inv1: "memo_inv parse \<lparr>effect_deps = deps, memo_cell = cell\<rparr>"
    by (simp add: memo_inv_def cell items)
  from items pc inv1 show ?thesis unfolding r by (simp add: parsed_items_def)
qed

theorem working_document_witness:
  "kind_configured (initial_world [(''root'', ''site''), (''root'', ''media'')] [''postType'']) ''postType'' \<and>
   memo_inv (\<lambda>c. [JObj 5 [(''name'', JStr ''core/paragraph'')]]) initial_hooks \<and>
   (\<exists>doc onInput onCh hs1 w1.
      useEntityBlockEditor (\<lambda>c. [JObj 5 [(''name'', JStr ''core/paragraph'')]])
        \<lparr>getEntityRecord = (\<lambda>k t i. if i = JNum 1 then Some [(''content'', JStr ''<p>a</p>'')] else None),
         getEditedEntityRecord = (\<lambda>k t i. if i = JNum 1 then Some [(''content'', JStr ''<p>a</p>'')] else None)\<rparr>
        ''postType'' ''post''
        \<lparr>initialEdits = JUndefined, blocksProp = None, contentProp = None, id_option = JNum 1\<rparr>
        initial_hooks [] (initial_world [(''root'', ''site''), (''root'', ''media'')] [''postType'']) =
        Inr (((doc, onInput, onCh), hs1), w1) \<and>
      array_items doc = Some [JObj 5 [(''name'', JStr ''core/paragraph'')]]) \<and>
   (\<exists>doc onInput onCh hs1 w1.
      useEntityBlockEditor (\<lambda>c. [JObj 5 [(''name'', JStr ''core/paragraph'')]])
        \<lparr>getEntityRecord = (\<lambda>k t i. if i = JNum 1 then Some [(''content'', JStr ''<p>a</p>'')] else None),
         getEditedEntityRecord = (\<lambda>k t i. if i = JNum 1 then Some [(''content'', JFun 4 Serialize_blocks)] else None)\<rparr>
        ''postType'' ''post''
        \<lparr>initialEdits = JUndefined, blocksProp = None, contentProp = None, id_option = JNum 1\<rparr>
        initial_hooks [] (initial_world [(''root'', ''site''), (''root'', ''media'')] [''postType'']) =
        Inr (((doc, onInput, onCh), hs1), w1) \<and>
      array_items doc = Some [] \<and> parse_calls w1 = [])"
proof -
  let ?w = "initial_world [(''root'', ''site''), (''root'', ''media'')] [''postType'']"
  let ?p = "\<lambda>c::jsval. [JObj 5 [(''name'', JStr ''core/paragraph'')]]"
  let ?o = "\<lparr>initialEdits = JUndefined, blocksProp = None, contentProp = None, id_option = JNum 1\<rparr>"
  let ?st1 = "\<lparr>getEntityRecord = (\<lambda>k t i. if i = JNum 1 then Some [(''content'', JStr ''<p>a</p>'')] else None),
         getEditedEntityRecord = (\<lambda>k t i. if i = JNum 1 then Some [(''content'', JStr ''<p>a</p>'')] else None)\<rparr>"
  let ?st2 = "\<lparr>getEntityRecord = (\<lambda>k t i. if i = JNum 1 then Some [(''content'', JStr ''<p>a</p>'')] else None),
         getEditedEntityRecord = (\<lambda>k t i. if i = JNum 1 then Some [(''content'', JFun 4 Serialize_blocks)] else None)\<rparr>"
  have h: "kind_configured ?w ''postType''" by (simp add: world_eval)
  have m: "memo_inv ?p initial_hooks" by (simp add: memo_inv_def initial_hooks_def)
  have e: "effective_id ?w ''postType'' ''post'' (id_option ?o) [] = JNum 1"
    by (simp add: world_eval id_eval)
  have p0: "parse_calls ?w = []" by (simp add: initial_world_def split: prod.splits)
  have b1: "JUndefined = fst (mapSelect ?st1 ''postType'' ''post'' (effective_id ?w ''postType'' ''post'' (id_option ?o) []) (blocksProp_of ?o))"
    unfolding e by (simp add: mapSelect_def js_get_def blocksProp_of_def)
  have c1: "JStr ''<p>a</p>'' = fst (mapSelect ?st1 ''postType'' ''post'' (effective_id ?w ''postType'' ''post'' (id_option ?o) []) (contentProp_of ?o))"
    unfolding e by (simp add: mapSelect_def js_get_def contentProp_of_def)
  have b2: "JUndefined = fst (mapSelect ?st2 ''postType'' ''post'' (effective_id ?w ''postType'' ''post'' (id_option ?o) []) (blocksProp_of ?o))"
    unfolding e by (simp add: mapSelect_def js_get_def blocksProp_of_def)
  have c2: "JFun 4 Serialize_blocks = fst (mapSelect ?st2 ''postType'' ''post'' (effective_id ?w ''postType'' ''post'' (id_option ?o) []) (contentProp_of ?o))"
    unfolding e by (simp add: mapSelect_def js_get_def contentProp_of_def)
  from working_document[OF h m b1 c1]
  have t1: "\<exists>doc onInput onCh hs1 w1.
      useEntityBlockEditor ?p ?st1 ''postType'' ''post'' ?o initial_hooks [] ?w = Inr (((doc, onInput, onCh), hs1), w1) \<and>
      array_items doc = Some [JObj 5 [(''name'', JStr ''core/paragraph'')]]"
    by auto
  from working_document[OF h m b2 c2]
  have t2: "\<exists>doc onInput onCh hs1 w1.
      useEntityBlockEditor ?p ?st2 ''postType'' ''post'' ?o initial_hooks [] ?w = Inr (((doc, onInput, onCh), hs1), w1) \<and>
      array_items doc = Some [] \<and> parse_calls w1 = []"
    by (auto simp: p0)
  from h m t1 t2 show ?thesis by (intro conjI)
qed

text \<open>
  C8. Two successive renders that read the same serialized value: the second does not
  call the parser, so the parser is called at most once over both; the memo holds the
  same value after both, keyed by the serialized value; that value is an array of the
  items that parsing the serialized value gives; and it is the document of either
  render whose structured value is undefined. The memo of the instance is taken to be
  well formed (\<open>memo_inv\<close>), as it is when the component mounts and after every
  render (\<open>memo_inv_initial\<close>, \<open>memo_inv_render\<close>); the pair keeps its entry between the
  renders, so each render resolves its id as it would in the first world.
\<close>

theorem memoized_parse:
  assumes k: "kind_configured w kind" and inv: "memo_inv parse hs"
    and c1: "content = fst (mapSelect st1 kind type (effective_id w kind type (id_option opts1) stack1) (contentProp_of opts1))"
    and c2: "content = fst (mapSelect st2 kind type (effective_id w kind type (id_option opts2) stack2) (contentProp_of opts2))"
    and b1: "blocks1 = fst (mapSelect st1 kind type (effective_id w kind type (id_option opts1) stack1) (blocksProp_of opts1))"
    and b2: "blocks2 = fst (mapSelect st2 kind type (effective_id w kind type (id_option opts2) stack2) (blocksProp_of opts2))"
  shows "\<exists>doc1 in1 ch1 hs1 w1 doc2 in2 ch2 hs2 w2 v.
           useEntityBlockEditor parse st1 kind type opts1 hs stack1 w = Inr (((doc1, in1, ch1), hs1), w1) \<and>
           useEntityBlockEditor parse st2 kind type opts2 hs1 stack2 w1 = Inr (((doc2, in2, ch2), hs2), w2) \<and>
           parse_calls w2 = parse_calls w1 \<and>
           length (parse_calls w2) \<le> Suc (length (parse_calls w)) \<and>
           memo_cell hs1 = Some (content, v) \<and> memo_cell hs2 = Some (content, v) \<and>
           array_items v = Some (parsed_items parse content) \<and>
           (blocks1 = JUndefined \<longrightarrow> doc1 = v) \<and> (blocks2 = JUndefined \<longrightarrow> doc2 = v)"
proof -
  from getEntity_configured[OF k] obtain ent wa where g: "getEntity kind type w = Inr (ent, wa)" by blast
  note rid1 = effective_id_eq[OF g, of "id_option opts1" stack1]
  note rid2 = effective_id_eq[OF g, of "id_option opts2" stack2]
  from render_step[OF g rid1 c1 b1, of parse hs] obtain v cell w3 deps w1 where
    m1: "useMemo (initialBlocks parse content) content (memo_cell hs) wa = ((v, cell), w3)"
    and ef1: "useEffect (initialEdits_effect kind type (effective_id w kind type (id_option opts1) stack1) (initialEdits opts1))
               (effective_id w kind type (id_option opts1) stack1) (effect_deps hs) w3 = (deps, w1)"
    and r1: "useEntityBlockEditor parse st1 kind type opts1 hs stack1 w =
       Inr (((if blocks1 = JUndefined then v else blocks1,
              setValue kind type (effective_id w kind type (id_option opts1) stack1) (blocksProp_of opts1),
              onChange (setValue kind type (effective_id w kind type (id_option opts1) stack1) (blocksProp_of opts1))
                       (setValue kind type (effective_id w kind type (id_option opts1) stack1) (contentProp_of opts1))),
             \<lparr>effect_deps = deps, memo_cell = cell\<rparr>), w1)"
    and g1: "getEntity kind type w1 = Inr (ent, w1)"
    by blast
  have cell: "cell = Some (content, v)" using m1 by (rule useMemo_key)
  have items: "array_items v = Some (parsed_items parse content)" using m1 inv by (rule useMemo_items)
  let ?hs1 = "\<lparr>effect_deps = deps, memo_cell = cell\<rparr>"
  from render_step[OF g1 rid2 c2 b2, of parse ?hs1] obtain v2 cell2 w4 deps2 w2 where
    m2: "useMemo (initialBlocks parse content) content (memo_cell ?hs1) w1 = ((v2, cell2), w4)"
    and ef2: "useEffect (initialEdits_effect kind type (effective_id w kind type (id_option opts2) stack2) (initialEdits opts2))
               (effective_id w kind type (id_option opts2) stack2) (effect_deps ?hs1) w4 = (deps2, w2)"
    and r2: "useEntityBlockEditor parse st2 kind type opts2 ?hs1 stack2 w1 =
       Inr (((if blocks2 = JUndefined then v2 else blocks2,
              setValue kind type (effective_id w kind type (id_option opts2) stack2) (blocksProp_of opts2),
              onChange (setValue kind type (effective_id w kind type (id_option opts2) stack2) (blocksProp_of opts2))
                       (setValue kind type (effective_id w kind type (id_option opts2) stack2) (contentProp_of opts2))),
             \<lparr>effect_deps = deps2, memo_cell = cell2\<rparr>), w2)"
    by blast
  from m2 have hit: "v2 = v" "cell2 = Some (content, v)" "w4 = w1"
    by (auto simp: cell useMemo_hit)
  have p2: "parse_calls w2 = parse_calls w1" using useEffect_frame[OF ef2] hit by simp
  have "length (parse_calls w3) \<le> Suc (length (parse_calls wa))"
    using useMemo_parse_calls[OF m1] by auto
  then have p1: "length (parse_calls w1) \<le> Suc (length (parse_calls w))"
    using useEffect_frame[OF ef1] getEntity_frame[OF g] by simp
  from p1 p2 items show ?thesis
    by (simp add: r1[unfolded cell] r2[unfolded cell hit])
qed

theorem memoized_parse_witness:
  "kind_configured (initial_world [(''root'', ''site''), (''root'', ''media'')] [''postType'']) ''postType'' \<and>
   memo_inv (\<lambda>c. [JObj 5 [(''name'', JStr ''core/paragraph'')]]) initial_hooks \<and>
   (\<exists>doc1 in1 ch1 hs1 w1 doc2 in2 ch2 hs2 w2.
      useEntityBlockEditor (\<lambda>c. [JObj 5 [(''name'', JStr ''core/paragraph'')]])
        \<lparr>getEntityRecord = (\<lambda>k t i. if i = JNum 1 then Some [(''content'', JStr ''<p>a</p>'')] else None),
         getEditedEntityRecord = (\<lambda>k t i. if i = JNum 1 then Some [(''content'', JStr ''<p>a</p>'')] else None)\<rparr>
        ''postType'' ''post''
        \<lparr>initialEdits = JUndefined, blocksProp = None, contentProp = None, id_option = JNum 1\<rparr>
        initial_hooks [] (initial_world [(''root'', ''site''), (''root'', ''media'')] [''postType'']) =
        Inr (((doc1, in1, ch1), hs1), w1) \<and>
      useEntityBlockEditor (\<lambda>c. [JObj 5 [(''name'', JStr ''core/paragraph'')]])
        \<lparr>getEntityRecord = (\<lambda>k t i. if i = JNum 1 then Some [(''content'', JStr ''<p>a</p>'')] else None),
         getEditedEntityRecord = (\<lambda>k t i. if i = JNum 1 then Some [(''content'', JStr ''<p>a</p>'')] else None)\<rparr>
        ''postType'' ''post''
        \<lparr>initialEdits = JUndefined, blocksProp = None, contentProp = None, id_option = JNum 1\<rparr>
        hs1 [] w1 =
        Inr (((doc2, in2, ch2), hs2), w2) \<and>
      parse_calls w2 = parse_calls w1 \<and> length (parse_calls w2) \<le> 1 \<and> doc2 = doc1 \<and>
      array_items doc2 = Some [JObj 5 [(''name'', JStr ''core/paragraph'')]])"
proof -
  let ?w = "initial_world [(''root'', ''site''), (''root'', ''media'')] [''postType'']"
  let ?p = "\<lambda>c::jsval. [JObj 5 [(''name'', JStr ''core/paragraph'')]]"
  let ?o = "\<lparr>initialEdits = JUndefined, blocksProp = None, contentProp = None, id_option = JNum 1\<rparr>"
  let ?st1 = "\<lparr>getEntityRecord = (\<lambda>k t i. if i = JNum 1 then Some [(''content'', JStr ''<p>a</p>'')] else None),
         getEditedEntityRecord = (\<lambda>k t i. if i = JNum 1 then Some [(''content'', JStr ''<p>a</p>'')] else None)\<rparr>"
  have h: "kind_configured ?w ''postType''" by (simp add: world_eval)
  have m: "memo_inv ?p initial_hooks" by (simp add: memo_inv_def initial_hooks_def)
  have e: "effective_id ?w ''postType'' ''post'' (id_option ?o) [] = JNum 1"
    by (simp add: world_eval id_eval)
  have p0: "parse_calls ?w = []" by (simp add: initial_world_def split: prod.splits)
  have b1: "JUndefined = fst (mapSelect ?st1 ''postType'' ''post'' (effective_id ?w ''postType'' ''post'' (id_option ?o) []) (blocksProp_of ?o))"
    unfolding e by (simp add: mapSelect_def js_get_def blocksProp_of_def)
  have c1: "JStr ''<p>a</p>'' = fst (mapSelect ?st1 ''postType'' ''post'' (effective_id ?w ''postType'' ''post'' (id_option ?o) []) (contentProp_of ?o))"
    unfolding e by (simp add: mapSelect_def js_get_def contentProp_of_def)
  from memoized_parse[OF h m c1 c1 b1 b1]
  have t: "\<exists>doc1 in1 ch1 hs1 w1 doc2 in2 ch2 hs2 w2.
      useEntityBlockEditor ?p ?st1 ''postType'' ''post'' ?o initial_hooks [] ?w = Inr (((doc1, in1, ch1), hs1), w1) \<and>
      useEntityBlockEditor ?p ?st1 ''postType'' ''post'' ?o hs1 [] w1 = Inr (((doc2, in2, ch2), hs2), w2) \<and>
      parse_calls w2 = parse_calls w1 \<and> length (parse_calls w2) \<le> 1 \<and> doc2 = doc1 \<and>
      array_items doc2 = Some [JObj 5 [(''name'', JStr ''core/paragraph'')]]"
    by (auto simp: p0 parsed_items_def)
  from h m t show ?thesis by (intro conjI)
qed

text \<open>
  C5, as stated: initial edits are applied as exactly one edit-commit per effective id.
  It fails in both directions. An instance rendered with the ids 5, 6 and 5 dispatches
  the initial edits for the id 5 twice; and an instance that is given initial edits only
  from its second render on, with the id unchanged, never dispatches them.
\<close>

theorem initial_edits_repeated_for_id:
  "dispatched_after
     (renders (\<lambda>c. []) ''postType'' ''post''
        [(\<lparr>getEntityRecord = (\<lambda>k t i. None), getEditedEntityRecord = (\<lambda>k t i. None)\<rparr>,
          \<lparr>initialEdits = JObj 3 [(''title'', JStr ''Draft'')], blocksProp = None, contentProp = None, id_option = JNum 5\<rparr>,
          []),
         (\<lparr>getEntityRecord = (\<lambda>k t i. None), getEditedEntityRecord = (\<lambda>k t i. None)\<rparr>,
          \<lparr>initialEdits = JObj 3 [(''title'', JStr ''Draft'')], blocksProp = None, contentProp = None, id_option = JNum 6\<rparr>,
          []),
         (\<lparr>getEntityRecord = (\<lambda>k t i. None), getEditedEntityRecord = (\<lambda>k t i. None)\<rparr>,
          \<lparr>initialEdits = JObj 3 [(''title'', JStr ''Draft'')], blocksProp = None, contentProp = None, id_option = JNum 5\<rparr>,
          [])]
        initial_hooks (initial_world [(''root'', ''site''), (''root'', ''media'')] [''postType''])) =
     [\<lparr>edit_kind = ''postType'', edit_type = ''post'', edit_id = JNum 5,
       edits = JObj 3 [(''title'', JStr ''Draft'')], undoIgnore = Some True\<rparr>,
      \<lparr>edit_kind = ''postType'', edit_type = ''post'', edit_id = JNum 6,
       edits = JObj 3 [(''title'', JStr ''Draft'')], undoIgnore = Some True\<rparr>,
      \<lparr>edit_kind = ''postType'', edit_type = ''post'', edit_id = JNum 5,
       edits = JObj 3 [(''title'', JStr ''Draft'')], undoIgnore = Some True\<rparr>] \<and>
   dispatched_after
     (renders (\<lambda>c. []) ''postType'' ''post''
        [(\<lparr>getEntityRecord = (\<lambda>k t i. None), getEditedEntityRecord = (\<lambda>k t i. None)\<rparr>,
          \<lparr>initialEdits = JUndefined, blocksProp = None, contentProp = None, id_option = JNum 5\<rparr>,
          []),
         (\<lparr>getEntityRecord = (\<lambda>k t i. None), getEditedEntityRecord = (\<lambda>k t i. None)\<rparr>,
          \<lparr>initialEdits = JObj 3 [(''title'', JStr ''Draft'')], blocksProp = None, contentProp = None, id_option = JNum 5\<rparr>,
          [])]
        initial_hooks (initial_world [(''root'', ''site''), (''root'', ''media'')] [''postType''])) = []"
  by (simp add: dispatched_after_def world_eval render_eval)

text \<open>
  C5, amended. A render applies the initial edits exactly when they are supplied at that
  render and the render is the first of the instance or its effective id differs from
  the id of the render before it: then the store receives one call for that id, with
  the initial edits as one object and \<^verbatim>\<open>undoIgnore\<close> set, and over the renders of an
  instance it receives nothing else. So repeated renders for the same id do not repeat
  the edit, an id that comes back after another is seeded again, and initial edits first
  supplied at a later render of an unchanged id are not applied. With the same initial
  edits at every render this is one call per run of equal ids (\<open>seed_calls_runs\<close>).
\<close>

theorem initial_edits_on_id_change:
  assumes k: "kind_configured w kind"
    and r: "renders parse kind type ins initial_hooks w = Inr (hs1, w1)"
  shows "dispatched w1 = dispatched w @
     seed_calls kind type None
       (map (\<lambda>x. (effective_id w kind type (id_option (fst (snd x))) (snd (snd x)),
                  initialEdits (fst (snd x)))) ins)"
proof -
  from getEntity_configured[OF k] obtain ent wa where g: "getEntity kind type w = Inr (ent, wa)" by blast
  from renders_seed_calls[OF g r] show ?thesis
    by (simp add: initial_hooks_def effective_id_eq[OF g])
qed

theorem initial_edits_on_id_change_witness:
  "kind_configured (initial_world [(''root'', ''site''), (''root'', ''media'')] [''postType'']) ''postType'' \<and>
   (\<exists>hs1 w1.
      renders (\<lambda>c. []) ''postType'' ''post''
        [(\<lparr>getEntityRecord = (\<lambda>k t i. None), getEditedEntityRecord = (\<lambda>k t i. None)\<rparr>,
          \<lparr>initialEdits = JObj 3 [(''title'', JStr ''Draft'')], blocksProp = None, contentProp = None, id_option = JNum 5\<rparr>,
          []),
         (\<lparr>getEntityRecord = (\<lambda>k t i. None), getEditedEntityRecord = (\<lambda>k t i. None)\<rparr>,
          \<lparr>initialEdits = JObj 3 [(''title'', JStr ''Draft'')], blocksProp = None, contentProp = None, id_option = JNum 5\<rparr>,
          []),
         (\<lparr>getEntityRecord = (\<lambda>k t i. None), getEditedEntityRecord = (\<lambda>k t i. None)\<rparr>,
          \<lparr>initialEdits = JUndefined, blocksProp = None, contentProp = None, id_option = JNum 7\<rparr>,
          []),
         (\<lparr>getEntityRecord = (\<lambda>k t i. None), getEditedEntityRecord = (\<lambda>k t i. None)\<rparr>,
          \<lparr>initialEdits = JObj 4 [(''title'', JStr ''Other'')], blocksProp = None, contentProp = None, id_option = JNum 6\<rparr>,
          [])]
        initial_hooks (initial_world [(''root'', ''site''), (''root'', ''media'')] [''postType'']) = Inr (hs1, w1) \<and>
      dispatched w1 =
        [seed_call ''postType'' ''post'' (JObj 3 [(''title'', JStr ''Draft'')]) (JNum 5),
         seed_call ''postType'' ''post'' (JObj 4 [(''title'', JStr ''Other'')]) (JNum 6)])"
proof -
  let ?w = "initial_world [(''root'', ''site''), (''root'', ''media'')] [''postType'']"
  let ?st = "\<lparr>getEntityRecord = (\<lambda>k t i. None), getEditedEntityRecord = (\<lambda>k t i. None)\<rparr>"
  let ?ins = "[(?st, \<lparr>initialEdits = JObj 3 [(''title'', JStr ''Draft'')], blocksProp = None, contentProp = None, id_option = JNum 5\<rparr>, []),
               (?st, \<lparr>initialEdits = JObj 3 [(''title'', JStr ''Draft'')], blocksProp = None, contentProp = None, id_option = JNum 5\<rparr>, []),
               (?st, \<lparr>initialEdits = JUndefined, blocksProp = None, contentProp = None, id_option = JNum 7\<rparr>, []),
               (?st, \<lparr>initialEdits = JObj 4 [(''title'', JStr ''Other'')], blocksProp = None, contentProp = None, id_option = JNum 6\<rparr>, [])]"
  have h: "kind_configured ?w ''postType''" by (simp add: world_eval)
  have d0: "dispatched ?w = []" by (simp add: initial_world_def split: prod.splits)
  have e5: "effective_id ?w ''postType'' ''post'' (JNum 5) [] = JNum 5" by (simp add: world_eval id_eval)
  have e6: "effective_id ?w ''postType'' ''post'' (JNum 6) [] = JNum 6" by (simp add: world_eval id_eval)
  have e7: "effective_id ?w ''postType'' ''post'' (JNum 7) [] = JNum 7" by (simp add: world_eval id_eval)
  from renders_configured[OF h, of "\<lambda>c. []" "''post''" ?ins initial_hooks]
  obtain hs1 w1 where r: "renders (\<lambda>c. []) ''postType'' ''post'' ?ins initial_hooks ?w = Inr (hs1, w1)"
    by auto
  from initial_edits_on_id_change[OF h r]
  have "dispatched w1 = [seed_call ''postType'' ''post'' (JObj 3 [(''title'', JStr ''Draft'')]) (JNum 5),
                         seed_call ''postType'' ''post'' (JObj 4 [(''title'', JStr ''Other'')]) (JNum 6)]"
    by (simp add: d0 e5 e6 e7)
  with r have "\<exists>hs1 w1. renders (\<lambda>c. []) ''postType'' ''post'' ?ins initial_hooks ?w = Inr (hs1, w1) \<and>
      dispatched w1 = [seed_call ''postType'' ''post'' (JObj 3 [(''title'', JStr ''Draft'')]) (JNum 5),
                       seed_call ''postType'' ''post'' (JObj 4 [(''title'', JStr ''Other'')]) (JNum 6)]"
    by blast
  with h show ?thesis by (intro conjI)
qed

text \<open>
  C1. \<^verbatim>\<open>onChange\<close> dispatches one edit of the structured field and then one edit of
  the serialized field whose value is a function (\<open>onChange_dispatched\<close>), and that
  function serializes the property \<^verbatim>\<open>blocks\<close> of the record it is called with
  (\<open>call_function_blocks\<close>): the structured value when the structured field has its
  default name. With \<^verbatim>\<open>blocksProp\<close> set to another name the function still reads
  \<^verbatim>\<open>blocks\<close>. Below, the hook is rendered with \<^verbatim>\<open>blocksProp: 'myBlocks'\<close> and
  \<^verbatim>\<open>onChange\<close> is called with a document of one paragraph; the function it dispatched,
  called with a record whose field \<^verbatim>\<open>myBlocks\<close> holds that document, serializes
  undefined and not the document.
\<close>

theorem custom_blocksProp_not_serialized:
  "useEntityBlockEditor (\<lambda>c. [])
       \<lparr>getEntityRecord = (\<lambda>k t i. None), getEditedEntityRecord = (\<lambda>k t i. None)\<rparr>
       ''postType'' ''post''
       \<lparr>initialEdits = JUndefined, blocksProp = Some ''myBlocks'', contentProp = None, id_option = JNum 1\<rparr>
       initial_hooks [] (initial_world [(''root'', ''site''), (''root'', ''media'')] [''postType'']) =
     Inr (((JArr 0 [],
            setValue ''postType'' ''post'' (JNum 1) ''myBlocks'',
            onChange (setValue ''postType'' ''post'' (JNum 1) ''myBlocks'')
                     (setValue ''postType'' ''post'' (JNum 1) ''content'')),
           \<lparr>effect_deps = Some (JNum 1), memo_cell = Some (JUndefined, JArr 0 [])\<rparr>),
          \<lparr>entities = [(''root'', [(''site'', \<lparr>context_of = 0\<rparr>), (''media'', \<lparr>context_of = 1\<rparr>)]),
                       (''postType'', [(''post'', \<lparr>context_of = 2\<rparr>)])],
           contexts_created = 3, dispatched = [], parse_calls = [], refs_allocated = 1\<rparr>) \<and>
   dispatched
     (onChange (setValue ''postType'' ''post'' (JNum 1) ''myBlocks'')
               (setValue ''postType'' ''post'' (JNum 1) ''content'')
        (JArr 7 [JObj 8 [(''name'', JStr ''core/paragraph'')]])
        \<lparr>entities = [(''root'', [(''site'', \<lparr>context_of = 0\<rparr>), (''media'', \<lparr>context_of = 1\<rparr>)]),
                     (''postType'', [(''post'', \<lparr>context_of = 2\<rparr>)])],
         contexts_created = 3, dispatched = [], parse_calls = [], refs_allocated = 1\<rparr>) =
     [\<lparr>edit_kind = ''postType'', edit_type = ''post'', edit_id = JNum 1,
       edits = JObj 1 [(''myBlocks'', JArr 7 [JObj 8 [(''name'', JStr ''core/paragraph'')]])],
       undoIgnore = None\<rparr>,
      \<lparr>edit_kind = ''postType'', edit_type = ''post'', edit_id = JNum 1,
       edits = JObj 3 [(''content'', JFun 2 Serialize_blocks)],
       undoIgnore = None\<rparr>] \<and>
   call_function (\<lambda>v. case v of JArr r xs \<Rightarrow> JStr ''<!-- wp:paragraph /-->'' | _ \<Rightarrow> JStr [])
       Serialize_blocks
       (JObj 9 [(''myBlocks'', JArr 7 [JObj 8 [(''name'', JStr ''core/paragraph'')]])]) =
     Inr (JStr []) \<and>
   (\<lambda>v. case v of JArr r xs \<Rightarrow> JStr ''<!-- wp:paragraph /-->'' | _ \<Rightarrow> JStr [])
       (JArr 7 [JObj 8 [(''name'', JStr ''core/paragraph'')]]) =
     JStr ''<!-- wp:paragraph /-->''"
  by (simp add: world_eval render_eval onChange_dispatched)

end
